theory Spec2Isabelle
  imports Complex_Main "HOL-Library.Word"
begin

section \<open>JavaScript values\<close>

text \<open>
  The worker receives its inputs through \<^verbatim>\<open>request.json()\<close>, so every field of a
  request body is an arbitrary JSON value, or \<^verbatim>\<open>undefined\<close> when the key is absent.
  A finite number is given by its value, a rational; a JSON number too large for a
  double is read as an infinity. Strings are byte strings, an object is the list of
  its own members, each key once, as \<^verbatim>\<open>JSON.parse\<close> leaves it.
\<close>

datatype jsval =
    JUndefined
  | JNull
  | JBool bool
  | JNum rat
  | JInfinity bool
  | JStr string
  | JArr "jsval list"
  | JObj "(string \<times> jsval) list"

type_synonym byte = "8 word"

text \<open>
  The primitives of the platform are parameters: \<^verbatim>\<open>TextEncoder.encode\<close> (UTF-8),
  \<^verbatim>\<open>crypto.subtle.sign("HMAC", key, data)\<close> with hash SHA-256 (the key bytes and the
  data bytes go in, the digest bytes come out), and the text that
  \<^verbatim>\<open>Number.prototype.toString\<close> gives for a number that is not an integer of
  magnitude up to \<open>2\<^sup>5\<^sup>3\<close> (a fraction, or a large number, printed with the shortest
  digits that read back as the same double, in exponent form from \<open>10\<^sup>2\<^sup>1\<close>).
\<close>

record platform =
  encode :: "string \<Rightarrow> byte list"
  hmac_sha256 :: "byte list \<Rightarrow> byte list \<Rightarrow> byte list"
  number_text :: "rat \<Rightarrow> string"

text \<open>\<^verbatim>\<open>Number.prototype.toString(radix)\<close> on a non-negative integer.\<close>

definition digit_char :: "nat \<Rightarrow> char" where
  "digit_char d = ''0123456789abcdef'' ! (d mod 16)"

fun toString_radix :: "nat \<Rightarrow> nat \<Rightarrow> string" where
  "toString_radix r n =
     (if n < r \<or> r < 2 then [digit_char n]
      else toString_radix r (n div r) @ [digit_char (n mod r)])"

declare toString_radix.simps [simp del]

text \<open>
  An integer of magnitude up to \<open>2\<^sup>5\<^sup>3\<close> is a double and is printed with all its
  decimal digits.
\<close>

definition safe_integer :: "rat \<Rightarrow> bool" where
  "safe_integer q = (q = of_int \<lfloor>q\<rfloor> \<and> \<bar>q\<bar> \<le> 2 ^ 53)"

definition number_toString :: "platform \<Rightarrow> rat \<Rightarrow> string" where
  "number_toString pf q =
     (if safe_integer q
      then (if q < 0 then CHR ''-'' # toString_radix 10 (nat (- \<lfloor>q\<rfloor>))
            else toString_radix 10 (nat \<lfloor>q\<rfloor>))
      else number_text pf q)"

fun join :: "string \<Rightarrow> string list \<Rightarrow> string" where
  "join sep [] = []"
| "join sep [x] = x"
| "join sep (x # y # ys) = x @ sep @ join sep (y # ys)"

text \<open>The results of conversions done one after the other, up to the first that throws.\<close>

fun collect :: "(string + 'a) list \<Rightarrow> string + 'a list" where
  "collect [] = Inr []"
| "collect (Inl err # rs) = Inl err"
| "collect (Inr v # rs) = (case collect rs of Inl err \<Rightarrow> Inl err | Inr vs \<Rightarrow> Inr (v # vs))"

definition conversion_error :: string where
  "conversion_error = ''Cannot convert object to primitive value''"

text \<open>
  The abstract operation ToString, as applied by template literals and by
  \<^verbatim>\<open>RegExp.prototype.test\<close>; \<open>Inl\<close> is the TypeError it throws. An object is
  converted by its \<^verbatim>\<open>toString\<close> method; the inherited one gives
  \<^verbatim>\<open>[object Object]\<close>, but an own member named \<^verbatim>\<open>toString\<close> hides it, and as no JSON
  value is callable (and \<^verbatim>\<open>valueOf\<close>, own or inherited, gives no primitive either)
  the conversion then throws. An array joins the conversions of its elements with a
  comma, \<^verbatim>\<open>null\<close> and \<^verbatim>\<open>undefined\<close> elements counting as the empty string.
\<close>

fun ToString :: "platform \<Rightarrow> jsval \<Rightarrow> string + string" where
  "ToString pf JUndefined = Inr ''undefined''"
| "ToString pf JNull = Inr ''null''"
| "ToString pf (JBool b) = Inr (if b then ''true'' else ''false'')"
| "ToString pf (JNum q) = Inr (number_toString pf q)"
| "ToString pf (JInfinity pos) = Inr (if pos then ''Infinity'' else ''-Infinity'')"
| "ToString pf (JStr s) = Inr s"
| "ToString pf (JArr xs) =
     (case collect (map (\<lambda>x. if x = JNull \<or> x = JUndefined then Inr [] else ToString pf x) xs) of
        Inl err \<Rightarrow> Inl err
      | Inr ss \<Rightarrow> Inr (join '','' ss))"
| "ToString pf (JObj kvs) =
     (if ''toString'' \<in> set (map fst kvs) then Inl conversion_error
      else Inr ''[object Object]'')"

text \<open>The abstract operation ToBoolean, as applied by \<^verbatim>\<open>!v\<close>.\<close>

fun truthy :: "jsval \<Rightarrow> bool" where
  "truthy JUndefined = False"
| "truthy JNull = False"
| "truthy (JBool b) = b"
| "truthy (JNum q) = (q \<noteq> 0)"
| "truthy (JInfinity pos) = True"
| "truthy (JStr s) = (s \<noteq> [])"
| "truthy (JArr xs) = True"
| "truthy (JObj kvs) = True"

text \<open>
  Property access \<^verbatim>\<open>v.k\<close>, also the destructuring \<^verbatim>\<open>const { k } = v\<close>: both throw a
  TypeError when \<^verbatim>\<open>v\<close> is \<^verbatim>\<open>null\<close> or \<^verbatim>\<open>undefined\<close>; otherwise they give the member of
  an object (the first binding of a key counts) and \<^verbatim>\<open>undefined\<close> on every other
  value. This is so for the keys the worker reads (the members of the two request
  bodies and \<^verbatim>\<open>id\<close>), none of which names a built-in or inherited property. The
  message of the TypeError is the engine's; one fixed text stands for it.
\<close>

definition type_error :: string where
  "type_error = ''Cannot read properties of null or undefined''"

definition has_properties :: "jsval \<Rightarrow> bool" where
  "has_properties v = (v \<noteq> JNull \<and> v \<noteq> JUndefined)"

fun js_get :: "jsval \<Rightarrow> string \<Rightarrow> jsval" where
  "js_get (JObj kvs) k = (case map_of kvs k of None \<Rightarrow> JUndefined | Some v \<Rightarrow> v)"
| "js_get v k = JUndefined"

text \<open>\<^verbatim>\<open>typeof v\<close>.\<close>

fun typeof :: "jsval \<Rightarrow> string" where
  "typeof JUndefined = ''undefined''"
| "typeof (JBool b) = ''boolean''"
| "typeof (JNum q) = ''number''"
| "typeof (JInfinity pos) = ''number''"
| "typeof (JStr s) = ''string''"
| "typeof v = ''object''"

section \<open>Signature verification\<close>

definition padStart :: "nat \<Rightarrow> char \<Rightarrow> string \<Rightarrow> string" where
  "padStart n c s = replicate (n - length s) c @ s"

text \<open>The message of the error of \<^verbatim>\<open>importKey\<close> is the platform's; one fixed text stands for it.\<close>

definition key_error :: string where
  "key_error = ''Zero-length key is not supported''"

text \<open>
  \<^verbatim>\<open>verifySignature\<close>, in the order of the source: \<^verbatim>\<open>importKey\<close> refuses a key of
  length zero; the template literal converts the order id, then the payment id, and
  throws when a conversion does; the digest is printed byte by byte with
  \<^verbatim>\<open>b.toString(16).padStart(2, "0")\<close>, joined, and compared with \<^verbatim>\<open>===\<close> to the
  signature the client sent (so a signature that is not a string never matches).
  \<open>Inl\<close> is the error with which the promise is rejected.
\<close>

definition verifySignature :: "platform \<Rightarrow> jsval \<Rightarrow> jsval \<Rightarrow> jsval \<Rightarrow> string \<Rightarrow> string + bool" where
  "verifySignature pf orderId paymentId signature secret =
     (let key = encode pf secret
      in if key = [] then Inl key_error
         else
           (case ToString pf orderId of
              Inl err \<Rightarrow> Inl err
            | Inr order_text \<Rightarrow>
                (case ToString pf paymentId of
                   Inl err \<Rightarrow> Inl err
                 | Inr payment_text \<Rightarrow>
                     (let data = encode pf (order_text @ ''|'' @ payment_text);
                          sig = hmac_sha256 pf key data;
                          computed = concat (map (\<lambda>b. padStart 2 CHR ''0'' (toString_radix 16 (unat b))) sig)
                      in Inr (JStr computed = signature)))))"

text \<open>
  The specification's wording, for comparison: the lowercase hexadecimal encoding of a
  byte string, two digits per byte, high nibble first, applied to the digest of the
  text of the order id, a vertical bar and the text of the payment id.
\<close>

definition spec_hex_digit :: "nat \<Rightarrow> char" where
  "spec_hex_digit d =
     (if d < 10 then char_of (48 + d) else char_of (87 + d))"

definition spec_hex :: "byte list \<Rightarrow> string" where
  "spec_hex bs = concat (map (\<lambda>b. [spec_hex_digit (unat b div 16), spec_hex_digit (unat b mod 16)]) bs)"

definition spec_signature :: "platform \<Rightarrow> string \<Rightarrow> string \<Rightarrow> string \<Rightarrow> string" where
  "spec_signature pf secret order_text payment_text =
     spec_hex (hmac_sha256 pf (encode pf secret) (encode pf (order_text @ ''|'' @ payment_text)))"

section \<open>Responses and promises\<close>

record response =
  status :: nat
  body :: "jsval option"

text \<open>
  \<^verbatim>\<open>jsonResponse(data, status = 200)\<close>. The body is \<^verbatim>\<open>JSON.stringify(data)\<close>, kept
  here as the value that text encodes: the members of an object that are
  \<^verbatim>\<open>undefined\<close> are left out, and \<^verbatim>\<open>undefined\<close> in an array and an infinite number
  are written \<^verbatim>\<open>null\<close>.
\<close>

fun stringify :: "jsval \<Rightarrow> jsval" where
  "stringify (JObj kvs) =
     JObj (filter (\<lambda>kv. snd kv \<noteq> JUndefined)
             (map (\<lambda>kv. (fst kv, if snd kv = JUndefined then JUndefined else stringify (snd kv))) kvs))"
| "stringify (JArr xs) = JArr (map (\<lambda>x. if x = JUndefined then JNull else stringify x) xs)"
| "stringify (JInfinity pos) = JNull"
| "stringify JUndefined = JUndefined"
| "stringify JNull = JNull"
| "stringify (JBool b) = JBool b"
| "stringify (JNum q) = JNum q"
| "stringify (JStr s) = JStr s"

definition jsonResponse :: "jsval \<Rightarrow> nat \<Rightarrow> response" where
  "jsonResponse data st = \<lparr>status = st, body = Some (stringify data)\<rparr>"

text \<open>
  The outcome of an \<^verbatim>\<open>async\<close> function: its promise is fulfilled with a value or
  rejected with the message of the error thrown.
\<close>

datatype 'a promise = Fulfilled 'a | Rejected string

section \<open>The store\<close>

text \<open>
  The two tables of the schema: \<^verbatim>\<open>counter\<close> holds at most the row with
  \<^verbatim>\<open>id = 1\<close> (its \<^verbatim>\<open>total_orders\<close>, or nothing when the row is absent), and
  \<^verbatim>\<open>payments\<close> holds the inserted rows in insertion order. The columns \<^verbatim>\<open>id\<close>
  (autoincrement) and \<^verbatim>\<open>created_at\<close> (the time of insertion) of a payment are
  not represented.
\<close>

record payment =
  order_number :: int
  name :: jsval
  mobile :: jsval
  address :: jsval
  amount :: jsval
  razorpay_order_id :: jsval
  razorpay_payment_id :: jsval

text \<open>
  The database binding \<^verbatim>\<open>env.DB\<close> is an external collaborator, a transactional
  relational store. Its state is the two tables and, while a transaction is open,
  the snapshot taken at \<^verbatim>\<open>BEGIN TRANSACTION\<close>, which \<^verbatim>\<open>ROLLBACK\<close> restores and
  \<^verbatim>\<open>COMMIT\<close> discards. A transaction statement that does not fit the state (a second
  begin, a commit or rollback with no transaction open) is an error, with a message
  of the store for which a fixed text stands.
\<close>

record store =
  counter :: "int option"
  payments :: "payment list"
  txn :: "(int option \<times> payment list) option"

text \<open>
  The columns of \<^verbatim>\<open>payments\<close> that take bound values have the affinities of the
  schema: \<^verbatim>\<open>order_number\<close> and \<^verbatim>\<open>amount\<close> are INTEGER, the others TEXT. A string
  fits a TEXT column and an integer of magnitude up to \<open>2\<^sup>5\<^sup>3\<close> fits an INTEGER
  column: the store keeps such a value as it is bound.
\<close>

datatype affinity = TEXT | INTEGER

fun fits :: "affinity \<Rightarrow> jsval \<Rightarrow> bool" where
  "fits TEXT (JStr s) = True"
| "fits INTEGER (JNum q) = safe_integer q"
| "fits a v = False"

text \<open>
  What the store does is the store's decision, not the worker's. A plan says, for
  one request, which of the statements the worker may issue fails, and with which
  error message; what the binding and the column affinity make of a value that
  does not fit its column (a number in a TEXT column, a string in an INTEGER column,
  a boolean, ...); and the message of a violated \<^verbatim>\<open>NOT NULL\<close> constraint. A statement
  that fails changes nothing.
\<close>

record faults =
  begin_fault :: "string option"
  update_fault :: "string option"
  select_fault :: "string option"
  insert_fault :: "string option"
  commit_fault :: "string option"
  rollback_fault :: "string option"
  conversion :: "affinity \<Rightarrow> jsval \<Rightarrow> jsval"
  constraint_text :: string

definition column_value :: "faults \<Rightarrow> affinity \<Rightarrow> jsval \<Rightarrow> jsval" where
  "column_value fl a v = (if fits a v then v else conversion fl a v)"

type_synonym 'a db_action = "store \<Rightarrow> (string + 'a) \<times> store"

text \<open>\<^verbatim>\<open>db.exec("BEGIN TRANSACTION")\<close>\<close>

definition exec_begin :: "string option \<Rightarrow> unit db_action" where
  "exec_begin f s =
     (case f of
        Some msg \<Rightarrow> (Inl msg, s)
      | None \<Rightarrow>
          (case txn s of
             Some snap \<Rightarrow> (Inl ''cannot start a transaction within a transaction'', s)
           | None \<Rightarrow> (Inr (), s\<lparr>txn := Some (counter s, payments s)\<rparr>)))"

text \<open>\<^verbatim>\<open>db.exec("COMMIT")\<close>\<close>

definition exec_commit :: "string option \<Rightarrow> unit db_action" where
  "exec_commit f s =
     (case f of
        Some msg \<Rightarrow> (Inl msg, s)
      | None \<Rightarrow>
          (case txn s of
             None \<Rightarrow> (Inl ''cannot commit - no transaction is active'', s)
           | Some snap \<Rightarrow> (Inr (), s\<lparr>txn := None\<rparr>)))"

text \<open>\<^verbatim>\<open>db.exec("ROLLBACK")\<close>\<close>

definition exec_rollback :: "string option \<Rightarrow> unit db_action" where
  "exec_rollback f s =
     (case f of
        Some msg \<Rightarrow> (Inl msg, s)
      | None \<Rightarrow>
          (case txn s of
             None \<Rightarrow> (Inl ''cannot rollback - no transaction is active'', s)
           | Some snap \<Rightarrow> (Inr (), \<lparr>counter = fst snap, payments = snd snap, txn = None\<rparr>)))"

text \<open>
  \<^verbatim>\<open>UPDATE counter SET total_orders = total_orders + 1 WHERE id = 1\<close>: no row is
  touched when the row is absent, and that is no error.
\<close>

definition run_update_counter :: "string option \<Rightarrow> unit db_action" where
  "run_update_counter f s =
     (case f of
        Some msg \<Rightarrow> (Inl msg, s)
      | None \<Rightarrow> (Inr (), s\<lparr>counter := map_option (\<lambda>total_orders. total_orders + 1) (counter s)\<rparr>))"

text \<open>
  \<^verbatim>\<open>SELECT total_orders FROM counter WHERE id = 1\<close> with \<^verbatim>\<open>.first()\<close>: the row, or
  \<^verbatim>\<open>null\<close> (here \<open>None\<close>) when there is none.
\<close>

definition first_counter :: "string option \<Rightarrow> (int option) db_action" where
  "first_counter f s =
     (case f of
        Some msg \<Rightarrow> (Inl msg, s)
      | None \<Rightarrow> (Inr (counter s), s))"

text \<open>
  \<^verbatim>\<open>INSERT INTO payments (...) VALUES (?, ?, ?, ?, ?, ?, ?)\<close> with the seven bound
  values. Every column of the schema is \<^verbatim>\<open>NOT NULL\<close>, so a bound \<^verbatim>\<open>null\<close> or
  \<^verbatim>\<open>undefined\<close> makes the statement fail. The row holds each value as its column
  keeps it; any other refusal of a value by the store is a matter of the plan.
\<close>

definition not_null :: "jsval \<Rightarrow> bool" where
  "not_null v = (v \<noteq> JNull \<and> v \<noteq> JUndefined)"

definition stored_row :: "faults \<Rightarrow> payment \<Rightarrow> payment" where
  "stored_row fl p =
     \<lparr>order_number = order_number p,
      name = column_value fl TEXT (name p),
      mobile = column_value fl TEXT (mobile p),
      address = column_value fl TEXT (address p),
      amount = column_value fl INTEGER (amount p),
      razorpay_order_id = column_value fl TEXT (razorpay_order_id p),
      razorpay_payment_id = column_value fl TEXT (razorpay_payment_id p)\<rparr>"

definition run_insert_payment :: "faults \<Rightarrow> payment \<Rightarrow> unit db_action" where
  "run_insert_payment fl p s =
     (case insert_fault fl of
        Some msg \<Rightarrow> (Inl msg, s)
      | None \<Rightarrow>
          if not_null (name p) \<and> not_null (mobile p) \<and> not_null (address p) \<and> not_null (amount p)
             \<and> not_null (razorpay_order_id p) \<and> not_null (razorpay_payment_id p)
          then (Inr (), s\<lparr>payments := payments s @ [stored_row fl p]\<rparr>)
          else (Inl (constraint_text fl), s))"

section \<open>The world: store and trace of outbound calls\<close>

text \<open>
  Besides the store, the world records every statement sent to the store and every
  request sent to the payment provider, in order, whether it succeeded or not.
\<close>

datatype statement =
    BeginTransaction
  | UpdateCounter
  | SelectCounter
  | InsertPayment
  | Commit
  | Rollback

datatype effect = Db statement | ProviderFetch jsval

record world =
  db :: store
  trace :: "effect list"

type_synonym 'a action = "world \<Rightarrow> (string + 'a) \<times> world"

definition issue :: "statement \<Rightarrow> 'a db_action \<Rightarrow> 'a action" where
  "issue st act w =
     (case act (db w) of (r, s) \<Rightarrow> (r, \<lparr>db = s, trace = trace w @ [Db st]\<rparr>))"

text \<open>Sequencing of awaited calls: the first error thrown ends the sequence.\<close>

definition and_then :: "'a action \<Rightarrow> ('a \<Rightarrow> 'b action) \<Rightarrow> 'b action" where
  "and_then act k w =
     (case act w of
        (Inl err, w1) \<Rightarrow> (Inl err, w1)
      | (Inr v, w1) \<Rightarrow> k v w1)"

definition succeed :: "'a \<Rightarrow> 'a action" where
  "succeed v w = (Inr v, w)"

definition throw :: "string \<Rightarrow> 'a action" where
  "throw err w = (Inl err, w)"

section \<open>Helpers of the worker\<close>

record env =
  RZP_KEY_ID :: string
  RZP_SECRET :: string

text \<open>
  The arithmetic of JavaScript is that of IEEE 754 doubles. On integers it is written
  out here: an integer of magnitude up to \<open>2\<^sup>5\<^sup>3\<close> is a double; a larger one (of
  magnitude below \<open>2\<^sup>1\<^sup>0\<^sup>2\<^sup>4\<close>) is rounded to the nearest integer with 53 significant
  bits, a tie going to the even one. A sum or product of integers is the rounded
  exact result.
\<close>

fun bit_length :: "nat \<Rightarrow> nat" where
  "bit_length n = (if n = 0 then 0 else Suc (bit_length (n div 2)))"

declare bit_length.simps [simp del]

definition round_to_double :: "int \<Rightarrow> int" where
  "round_to_double x =
     (if \<bar>x\<bar> \<le> 2 ^ 53 then x
      else
        (let a = nat \<bar>x\<bar>;
             u = 2 ^ (bit_length a - 53);
             q = a div u;
             r = a mod u;
             q' = (if u < 2 * r \<or> (2 * r = u \<and> odd q) then q + 1 else q)
         in sgn x * int (q' * u)))"

text \<open>
  \<^verbatim>\<open>getNextOrderInfo(db)\<close>: \<^verbatim>\<open>row ? row.total_orders : 0\<close>, where the column value
  arrives as a JavaScript number, then
  \<^verbatim>\<open>{ totalOrders, nextAmount: (totalOrders + 1) * 10 }\<close>, here as a pair.
\<close>

definition getNextOrderInfo :: "string option \<Rightarrow> world \<Rightarrow> (int \<times> int) promise \<times> world" where
  "getNextOrderInfo f w =
     (case issue SelectCounter (first_counter f) w of
        (Inl err, w1) \<Rightarrow> (Rejected err, w1)
      | (Inr row, w1) \<Rightarrow>
          (let totalOrders = (case row of Some total_orders \<Rightarrow> round_to_double total_orders | None \<Rightarrow> 0)
           in (Fulfilled (totalOrders, round_to_double (round_to_double (totalOrders + 1) * 10)), w1)))"

text \<open>
  What the payment provider does with the order request is its own decision: the
  \<^verbatim>\<open>fetch\<close> may fail, the reply may be a non-2xx status (\<^verbatim>\<open>!res.ok\<close>), or a 2xx
  status whose body \<^verbatim>\<open>res.json()\<close> parses or fails to parse.
\<close>

datatype provider_reply =
    NetworkError string
  | NotOk
  | Ok "string + jsval"

text \<open>
  \<^verbatim>\<open>createRazorpayOrder(amount, env)\<close>. The trace keeps the amount the order is
  requested for; the body of the request (\<^verbatim>\<open>amount * 100\<close>, the currency, the receipt
  named after the time of the call) and the basic-auth header, which \<^verbatim>\<open>btoa\<close> builds
  from the two credentials (byte strings here, which it accepts), are not represented.
\<close>

definition createRazorpayOrder :: "jsval \<Rightarrow> env \<Rightarrow> provider_reply \<Rightarrow> world \<Rightarrow> jsval promise \<times> world" where
  "createRazorpayOrder amt e reply w =
     (let w1 = w\<lparr>trace := trace w @ [ProviderFetch amt]\<rparr>
      in case reply of
           NetworkError err \<Rightarrow> (Rejected err, w1)
         | NotOk \<Rightarrow> (Rejected ''Razorpay order creation failed'', w1)
         | Ok (Inl err) \<Rightarrow> (Rejected err, w1)
         | Ok (Inr order) \<Rightarrow> (Fulfilled order, w1))"

section \<open>Route handlers\<close>

text \<open>
  A request, as far as the worker looks at it: the method (\<^verbatim>\<open>request.method\<close>),
  the path of the URL and the outcome of \<^verbatim>\<open>request.json()\<close>, which is the parsed body or the message of the
  error when the body is no JSON text.
\<close>

record request =
  http_method :: string
  pathname :: string
  json :: "string + jsval"

text \<open>\<^verbatim>\<open>handleNextAmount(db)\<close>\<close>

definition handleNextAmount :: "string option \<Rightarrow> world \<Rightarrow> response promise \<times> world" where
  "handleNextAmount f w =
     (case getNextOrderInfo f w of
        (Rejected err, w1) \<Rightarrow> (Rejected err, w1)
      | (Fulfilled info, w1) \<Rightarrow>
          (Fulfilled (jsonResponse (JObj [(''nextAmount'', JNum (of_int (snd info)))]) 200), w1))"

text \<open>
  \<^verbatim>\<open>/^\d{10}$/.test(mobile)\<close>: the argument is converted with ToString first, and the
  test throws when the conversion does.
\<close>

definition is_digit :: "char \<Rightarrow> bool" where
  "is_digit c = (c \<in> set ''0123456789'')"

definition test_10_digits :: "platform \<Rightarrow> jsval \<Rightarrow> string + bool" where
  "test_10_digits pf v =
     (case ToString pf v of
        Inl err \<Rightarrow> Inl err
      | Inr s \<Rightarrow> Inr (length s = 10 \<and> list_all is_digit s))"

text \<open>
  \<^verbatim>\<open>amount < 10\<close>, which the handler evaluates only once \<^verbatim>\<open>typeof amount\<close> is known
  to be \<^verbatim>\<open>'number'\<close>.
\<close>

fun less_than :: "jsval \<Rightarrow> rat \<Rightarrow> bool" where
  "less_than (JNum q) k = (q < k)"
| "less_than (JInfinity pos) k = (\<not> pos)"
| "less_than v k = False"

text \<open>
  The characters between \<^verbatim>\<open>is\<close> and \<^verbatim>\<open>10\<close> in the message for an invalid amount, as
  the bytes the source file of the worker holds there (the bundled copy of the worker
  has the one character U+20B9 in that place).
\<close>

definition rupee_sign :: string where
  "rupee_sign =
     [char_of (195 :: nat), char_of (162 :: nat), char_of (226 :: nat), char_of (128 :: nat),
      char_of (154 :: nat), char_of (194 :: nat), char_of (185 :: nat)]"

definition error_body :: "string \<Rightarrow> jsval" where
  "error_body msg = JObj [(''error'', JStr msg)]"

text \<open>\<^verbatim>\<open>handleCreateOrder(request, env)\<close>\<close>

definition handleCreateOrder ::
  "platform \<Rightarrow> env \<Rightarrow> provider_reply \<Rightarrow> request \<Rightarrow> world \<Rightarrow> response promise \<times> world" where
  "handleCreateOrder pf e reply req w =
     (case json req of
        Inl err \<Rightarrow> (Rejected err, w)
      | Inr b \<Rightarrow>
          if \<not> has_properties b then (Rejected type_error, w)
          else
            (let nm = js_get b ''name''; mob = js_get b ''mobile'';
                 addr = js_get b ''address''; amt = js_get b ''amount''
             in if \<not> truthy nm \<or> \<not> truthy mob \<or> \<not> truthy addr
                then (Fulfilled (jsonResponse (error_body ''All fields are required'') 400), w)
                else
                  (case test_10_digits pf mob of
                     Inl err \<Rightarrow> (Rejected err, w)
                   | Inr matches \<Rightarrow>
                       if \<not> matches
                       then (Fulfilled (jsonResponse (error_body ''Invalid mobile number'') 400), w)
                       else if \<not> truthy amt \<or> typeof amt \<noteq> ''number'' \<or> less_than amt 10
                       then (Fulfilled (jsonResponse
                               (error_body (''Invalid amount. Minimum amount is '' @ rupee_sign @ ''10''))
                               400), w)
                       else
                         (case createRazorpayOrder amt e reply w of
                            (Rejected err, w1) \<Rightarrow> (Rejected err, w1)
                          | (Fulfilled order, w1) \<Rightarrow>
                              if \<not> has_properties order then (Rejected type_error, w1)
                              else (Fulfilled (jsonResponse
                                      (JObj [(''order_id'', js_get order ''id''), (''amount'', amt),
                                             (''key'', JStr (RZP_KEY_ID e))]) 200), w1)))))"

text \<open>
  The body of the \<^verbatim>\<open>try\<close> block of \<^verbatim>\<open>handleVerifyPayment\<close>: increment, read back
  (\<^verbatim>\<open>counterRow.total_orders\<close> throws a TypeError when there is no row), insert,
  commit. Its value is \<^verbatim>\<open>orderNumber\<close>, the counter as the store holds it (read
  through a JavaScript number, that is the exact value up to \<open>2\<^sup>5\<^sup>3\<close>). The six
  values destructured from the body come as a record, whose order number the
  transaction fills in.
\<close>

definition verify_transaction :: "faults \<Rightarrow> payment \<Rightarrow> int action" where
  "verify_transaction fl vals =
     and_then (issue UpdateCounter (run_update_counter (update_fault fl))) (\<lambda>_.
     and_then (issue SelectCounter (first_counter (select_fault fl))) (\<lambda>counterRow.
     and_then (case counterRow of None \<Rightarrow> throw type_error | Some total_orders \<Rightarrow> succeed total_orders)
       (\<lambda>orderNumber.
     and_then (issue InsertPayment
                 (run_insert_payment fl (vals\<lparr>order_number := orderNumber\<rparr>))) (\<lambda>_.
     and_then (issue Commit (exec_commit (commit_fault fl))) (\<lambda>_.
     succeed orderNumber)))))"

text \<open>
  \<^verbatim>\<open>handleVerifyPayment(request, env)\<close>. An error thrown by \<^verbatim>\<open>verifySignature\<close>
  rejects the handler's promise. \<^verbatim>\<open>BEGIN TRANSACTION\<close> is awaited before the
  \<^verbatim>\<open>try\<close> block, so its failure rejects the promise too; the \<^verbatim>\<open>catch\<close> clause
  awaits \<^verbatim>\<open>ROLLBACK\<close>, whose failure rejects it as well.
\<close>

definition handleVerifyPayment :: "platform \<Rightarrow> env \<Rightarrow> faults \<Rightarrow> request \<Rightarrow> world \<Rightarrow> response promise \<times> world" where
  "handleVerifyPayment pf e fl req w =
     (case json req of
        Inl err \<Rightarrow> (Rejected err, w)
      | Inr b \<Rightarrow>
          if \<not> has_properties b then (Rejected type_error, w)
          else
            (let vals = \<lparr>order_number = 0,
                           name = js_get b ''name'', mobile = js_get b ''mobile'',
                           address = js_get b ''address'', amount = js_get b ''amount'',
                           razorpay_order_id = js_get b ''razorpay_order_id'',
                           razorpay_payment_id = js_get b ''razorpay_payment_id''\<rparr>
             in case verifySignature pf (razorpay_order_id vals) (razorpay_payment_id vals)
                       (js_get b ''razorpay_signature'') (RZP_SECRET e) of
                  Inl err \<Rightarrow> (Rejected err, w)
                | Inr isValid \<Rightarrow>
                    if \<not> isValid
                    then (Fulfilled (jsonResponse (error_body ''Invalid payment signature'') 400), w)
                    else
                      (case issue BeginTransaction (exec_begin (begin_fault fl)) w of
                         (Inl err, w1) \<Rightarrow> (Rejected err, w1)
                       | (Inr _, w1) \<Rightarrow>
                           (case verify_transaction fl vals w1 of
                              (Inr orderNumber, w2) \<Rightarrow>
                                (Fulfilled (jsonResponse
                                   (JObj [(''status'', JStr ''success''),
                                          (''orderNumber'', JNum (of_int orderNumber))])
                                   200), w2)
                            | (Inl err, w2) \<Rightarrow>
                                (case issue Rollback (exec_rollback (rollback_fault fl)) w2 of
                                   (Inl err', w3) \<Rightarrow> (Rejected err', w3)
                                 | (Inr _, w3) \<Rightarrow>
                                     (Fulfilled (jsonResponse (error_body (''Database error: '' @ err)) 500),
                                      w3))))))"

section \<open>The entry point\<close>

text \<open>
  How a block of statements ends: normally with a value, or by throwing.
  A call of an \<^verbatim>\<open>async\<close> function never throws: it ends normally and its value is
  the promise, also when that promise is rejected.
\<close>

datatype 'a completion = Normal 'a | Throw string

definition call_async :: "'a promise \<times> world \<Rightarrow> 'a promise completion \<times> world" where
  "call_async r = (Normal (fst r), snd r)"

text \<open>
  \<^verbatim>\<open>try { block } catch (err) { handler }\<close>: the handler runs when the block throws.
\<close>

definition try_catch ::
  "'a completion \<times> world \<Rightarrow> (string \<Rightarrow> world \<Rightarrow> 'a completion \<times> world) \<Rightarrow> 'a completion \<times> world" where
  "try_catch block handler =
     (case block of
        (Throw err, w) \<Rightarrow> handler err w
      | (Normal v, w) \<Rightarrow> (Normal v, w))"

text \<open>
  The promise of an \<^verbatim>\<open>async\<close> function whose body returns a promise \<^verbatim>\<open>p\<close> (there is
  no \<^verbatim>\<open>await\<close> in \<^verbatim>\<open>return handle...(...)\<close>) settles as \<^verbatim>\<open>p\<close> does; a body that throws
  rejects it.
\<close>

definition async_body :: "'a promise completion \<times> world \<Rightarrow> 'a promise \<times> world" where
  "async_body c =
     (case c of
        (Normal p, w) \<Rightarrow> (p, w)
      | (Throw err, w) \<Rightarrow> (Rejected err, w))"

text \<open>
  \<^verbatim>\<open>fetch(request, env)\<close>. The reply to the CORS preflight has no body; the headers
  of the responses are not represented.
\<close>

definition fetch :: "platform \<Rightarrow> env \<Rightarrow> faults \<Rightarrow> provider_reply \<Rightarrow> request \<Rightarrow> world \<Rightarrow> response promise \<times> world" where
  "fetch pf e fl reply req w =
     (if http_method req = ''OPTIONS'' then (Fulfilled \<lparr>status = 200, body = None\<rparr>, w)
      else async_body
        (try_catch
           (if pathname req = ''/api/next-amount''
              then call_async (handleNextAmount (select_fault fl) w)
            else if pathname req = ''/api/create-order''
              then call_async (handleCreateOrder pf e reply req w)
            else if pathname req = ''/api/verify-payment''
              then call_async (handleVerifyPayment pf e fl req w)
            else (Normal (Fulfilled (jsonResponse (error_body ''Not found'') 404)), w))
           (\<lambda>err w1. (Normal (Fulfilled (jsonResponse (error_body err) 500)), w1))))"

section \<open>Sequences of verification requests\<close>

text \<open>
  Verification requests handled one after the other, each with the fault plan the
  store follows while it is handled; the outcomes are collected in order.
\<close>

fun run_verify :: "platform \<Rightarrow> env \<Rightarrow> (faults \<times> request) list \<Rightarrow> world \<Rightarrow> response promise list \<times> world" where
  "run_verify pf e [] w = ([], w)"
| "run_verify pf e (c # cs) w =
     (case handleVerifyPayment pf e (fst c) (snd c) w of
        (r, w1) \<Rightarrow> (case run_verify pf e cs w1 of (rs, w2) \<Rightarrow> (r # rs, w2)))"

text \<open>A request committed when its response is the success response, status 200.\<close>

fun committed :: "response promise \<Rightarrow> bool" where
  "committed (Fulfilled r) = (status r = 200)"
| "committed (Rejected err) = False"

section \<open>Sample inputs\<close>

text \<open>
  Concrete inputs on which the theorems below are instantiated. The sample platform
  stands in for the real primitives: its encoder reads a string as its bytes, its
  digest has two bytes, the lengths of the key and of the data, and it prints every
  number it is asked to print as \<^verbatim>\<open>NaN\<close>.
\<close>

definition sample_platform :: platform where
  "sample_platform =
     \<lparr>encode = map (\<lambda>c. of_nat (of_char c)),
      hmac_sha256 = (\<lambda>key data. [of_nat (length key), of_nat (length data)]),
      number_text = (\<lambda>q. ''NaN'')\<rparr>"

definition sample_env :: env where
  "sample_env = \<lparr>RZP_KEY_ID = ''rzp_test_key'', RZP_SECRET = ''s3cret''\<rparr>"

definition no_faults :: faults where
  "no_faults =
     \<lparr>begin_fault = None, update_fault = None, select_fault = None,
      insert_fault = None, commit_fault = None, rollback_fault = None,
      conversion = (\<lambda>a v. JNull), constraint_text = ''NOT NULL constraint failed''\<rparr>"

text \<open>The store as the schema script leaves it: the counter row with value 0, no payment.\<close>

definition initial_world :: world where
  "initial_world = \<lparr>db = \<lparr>counter = Some 0, payments = [], txn = None\<rparr>, trace = []\<rparr>"

text \<open>
  A verification request with a valid signature (under the sample platform) whose
  mobile number has five digits and whose amount is 5, and the same request with
  another signature.
\<close>

definition sample_payment :: "string \<Rightarrow> jsval" where
  "sample_payment sig =
     JObj [(''razorpay_order_id'', JStr ''order_1''), (''razorpay_payment_id'', JStr ''pay_1''),
           (''razorpay_signature'', JStr sig), (''name'', JStr ''Asha''), (''mobile'', JStr ''12345''),
           (''address'', JStr ''Pune''), (''amount'', JNum 5)]"

definition verify_request :: "string \<Rightarrow> request" where
  "verify_request sig =
     \<lparr>http_method = ''POST'', pathname = ''/api/verify-payment'', json = Inr (sample_payment sig)\<rparr>"

definition create_request :: "jsval \<Rightarrow> jsval \<Rightarrow> request" where
  "create_request mob amt =
     \<lparr>http_method = ''POST'', pathname = ''/api/create-order'',
      json = Inr (JObj [(''name'', JStr ''Asha''), (''mobile'', mob),
                        (''address'', JStr ''Pune''), (''amount'', amt)])\<rparr>"

text \<open>
  Four verification requests in a row: a valid one, a valid one whose insert the
  store refuses, one with a wrong signature, and a valid one again.
\<close>

definition sample_calls :: "(faults \<times> request) list" where
  "sample_calls =
     [(no_faults, verify_request ''060d''),
      (no_faults\<lparr>insert_fault := Some ''disk full''\<rparr>, verify_request ''060d''),
      (no_faults, verify_request ''beef''),
      (no_faults, verify_request ''060d'')]"

section \<open>Auxiliary facts\<close>

lemmas db_defs = issue_def and_then_def succeed_def throw_def exec_begin_def exec_commit_def
  exec_rollback_def run_update_counter_def first_counter_def run_insert_payment_def

lemma verify_transaction_Inr:
  assumes "verify_transaction fl vals w = (Inr n, w')" "txn (db w) = Some snap"
  shows "counter (db w) = Some (n - 1) \<and>
         db w' = \<lparr>counter = Some n,
                  payments = payments (db w) @ [stored_row fl (vals\<lparr>order_number := n\<rparr>)],
                  txn = None\<rparr>"
  using assms
  by (auto simp add: verify_transaction_def db_defs split: option.splits if_splits)

lemma verify_transaction_Inl:
  assumes "verify_transaction fl vals w = (Inl err, w')" "txn (db w) = Some snap"
  shows "txn (db w') = Some snap"
  using assms by (auto simp add: verify_transaction_def db_defs split: option.splits if_splits)

lemma begin_Inr:
  assumes "issue BeginTransaction (exec_begin f) w = (Inr u, w1)"
  shows "txn (db w) = None \<and> db w1 = (db w)\<lparr>txn := Some (counter (db w), payments (db w))\<rparr>"
  using assms by (auto simp: db_defs split: option.splits)

lemma begin_Inl:
  assumes "issue BeginTransaction (exec_begin f) w = (Inl err, w1)"
  shows "db w1 = db w"
  using assms by (auto simp: db_defs split: option.splits)

lemma rollback_restores:
  assumes "txn (db w) = Some (c, ps)"
  shows "\<exists>w'. issue Rollback (exec_rollback None) w = (Inr (), w') \<and> db w' = \<lparr>counter = c, payments = ps, txn = None\<rparr>
     \<and> trace w' = trace w @ [Db Rollback]"
  using assms by (auto simp: db_defs split: option.splits)

lemma handleVerifyPayment_valid:
  assumes "json req = Inr b" "has_properties b"
    "verifySignature pf (js_get b ''razorpay_order_id'') (js_get b ''razorpay_payment_id'')
       (js_get b ''razorpay_signature'') (RZP_SECRET e) = Inr True"
  shows "handleVerifyPayment pf e fl req w =
     (case issue BeginTransaction (exec_begin (begin_fault fl)) w of
        (Inl err, w1) \<Rightarrow> (Rejected err, w1)
      | (Inr _, w1) \<Rightarrow>
          (case verify_transaction fl
                  \<lparr>order_number = 0,
                   name = js_get b ''name'', mobile = js_get b ''mobile'',
                   address = js_get b ''address'', amount = js_get b ''amount'',
                   razorpay_order_id = js_get b ''razorpay_order_id'',
                   razorpay_payment_id = js_get b ''razorpay_payment_id''\<rparr> w1 of
             (Inr orderNumber, w2) \<Rightarrow>
               (Fulfilled (jsonResponse
                  (JObj [(''status'', JStr ''success''), (''orderNumber'', JNum (of_int orderNumber))]) 200), w2)
           | (Inl err, w2) \<Rightarrow>
               (case issue Rollback (exec_rollback (rollback_fault fl)) w2 of
                  (Inl err', w3) \<Rightarrow> (Rejected err', w3)
                | (Inr _, w3) \<Rightarrow>
                    (Fulfilled (jsonResponse (error_body (''Database error: '' @ err)) 500), w3))))"
  using assms by (simp add: handleVerifyPayment_def Let_def)

lemma handleVerifyPayment_no_transaction:
  assumes "handleVerifyPayment pf e fl req w = (r, w')"
    "\<not> (\<exists>b. json req = Inr b \<and> has_properties b \<and>
          verifySignature pf (js_get b ''razorpay_order_id'') (js_get b ''razorpay_payment_id'')
            (js_get b ''razorpay_signature'') (RZP_SECRET e) = Inr True)"
  shows "\<not> committed r \<and> w' = w"
proof (cases "json req")
  case (Inl err)
  with assms show ?thesis by (auto simp: handleVerifyPayment_def)
next
  case (Inr b)
  show ?thesis
  proof (cases "has_properties b")
    case False
    with assms Inr show ?thesis by (auto simp: handleVerifyPayment_def)
  next
    case True
    show ?thesis
    proof (cases "verifySignature pf (js_get b ''razorpay_order_id'') (js_get b ''razorpay_payment_id'')
            (js_get b ''razorpay_signature'') (RZP_SECRET e)")
      case (Inl err)
      with assms \<open>json req = Inr b\<close> True show ?thesis
        by (auto simp: handleVerifyPayment_def Let_def)
    next
      case (Inr v)
      with assms(2) \<open>json req = Inr b\<close> True have "\<not> v" by auto
      with assms(1) Inr \<open>json req = Inr b\<close> True show ?thesis
        by (auto simp: handleVerifyPayment_def Let_def jsonResponse_def)
    qed
  qed
qed

lemma handleVerifyPayment_step:
  assumes "handleVerifyPayment pf e fl req w = (r, w')" "rollback_fault fl = None" "txn (db w) = None"
  shows "if committed r
         then (\<exists>T row. counter (db w) = Some T \<and> order_number row = T + 1 \<and>
                 db w' = \<lparr>counter = Some (T + 1), payments = payments (db w) @ [row], txn = None\<rparr>)
         else db w' = db w"
proof (cases "\<exists>b. json req = Inr b \<and> has_properties b \<and>
          verifySignature pf (js_get b ''razorpay_order_id'') (js_get b ''razorpay_payment_id'')
            (js_get b ''razorpay_signature'') (RZP_SECRET e) = Inr True")
  case False
  from handleVerifyPayment_no_transaction[OF assms(1) False] show ?thesis by simp
next
  case True
  then obtain b where j: "json req = Inr b" and p: "has_properties b"
    and v: "verifySignature pf (js_get b ''razorpay_order_id'') (js_get b ''razorpay_payment_id'')
            (js_get b ''razorpay_signature'') (RZP_SECRET e) = Inr True"
    by blast
  note unfold = handleVerifyPayment_valid[OF j p v, of fl w]
  let ?vals = "\<lparr>order_number = 0,
                   name = js_get b ''name'', mobile = js_get b ''mobile'',
                   address = js_get b ''address'', amount = js_get b ''amount'',
                   razorpay_order_id = js_get b ''razorpay_order_id'',
                   razorpay_payment_id = js_get b ''razorpay_payment_id''\<rparr>"
  obtain rb w1 where b: "issue BeginTransaction (exec_begin (begin_fault fl)) w = (rb, w1)"
    by (cases "issue BeginTransaction (exec_begin (begin_fault fl)) w")
  show ?thesis
  proof (cases rb)
    case (Inl err)
    with assms(1) unfold b begin_Inl[of "begin_fault fl" w err w1] show ?thesis
      by auto
  next
    case (Inr u)
    with b begin_Inr[of "begin_fault fl" w u w1]
    have w1: "db w1 = (db w)\<lparr>txn := Some (counter (db w), payments (db w))\<rparr>" by simp
    obtain rt w2 where t: "verify_transaction fl ?vals w1 = (rt, w2)"
      by (cases "verify_transaction fl ?vals w1")
    show ?thesis
    proof (cases rt)
      case (Inr n)
      let ?row = "stored_row fl (?vals\<lparr>order_number := n\<rparr>)"
      from Inr t w1 verify_transaction_Inr[of fl ?vals w1 n w2 "(counter (db w), payments (db w))"]
      have "counter (db w) = Some (n - 1)"
        "db w2 = \<lparr>counter = Some n, payments = payments (db w) @ [?row], txn = None\<rparr>"
        by simp_all
      moreover have "order_number ?row = n" by (simp add: stored_row_def)
      moreover from assms(1) unfold b \<open>rb = Inr u\<close> t Inr
      have "r = Fulfilled (jsonResponse
                 (JObj [(''status'', JStr ''success''), (''orderNumber'', JNum (of_int n))]) 200)"
        "w' = w2"
        by auto
      ultimately show ?thesis
        by (auto simp: jsonResponse_def intro!: exI[of _ "n - 1"] exI[of _ ?row])
    next
      case (Inl err)
      with t w1 verify_transaction_Inl[of fl ?vals w1 err w2 "(counter (db w), payments (db w))"]
      have "txn (db w2) = Some (counter (db w), payments (db w))" by simp
      from rollback_restores[OF this] obtain w3 where
        w3: "issue Rollback (exec_rollback None) w2 = (Inr (), w3)"
            "db w3 = \<lparr>counter = counter (db w), payments = payments (db w), txn = None\<rparr>"
        by blast
      from assms(1,2) unfold b \<open>rb = Inr u\<close> t Inl w3
      have "r = Fulfilled (jsonResponse (error_body (''Database error: '' @ err)) 500)" "w' = w3"
        by auto
      with w3 assms(3) show ?thesis
        by (simp add: jsonResponse_def)
    qed
  qed
qed

lemma upto_snoc: "[1..int (Suc K)] = [1..int K] @ [int K + 1]"
  using upto_rec2[of 1 "int (Suc K)"] by simp

lemma run_verify_invariant:
  assumes "run_verify pf e calls w = (rs, w')"
    "\<forall>c\<in>set calls. rollback_fault (fst c) = None"
    "counter (db w) = Some (int K)"
    "map order_number (payments (db w)) = [1..int K]"
    "txn (db w) = None"
  shows "counter (db w') = Some (int (K + length (filter committed rs))) \<and>
         map order_number (payments (db w')) = [1..int (K + length (filter committed rs))] \<and>
         txn (db w') = None"
  using assms
proof (induction calls arbitrary: w K rs w')
  case Nil
  then show ?case by simp
next
  case (Cons c cs)
  obtain r w1 where h: "handleVerifyPayment pf e (fst c) (snd c) w = (r, w1)"
    by (cases "handleVerifyPayment pf e (fst c) (snd c) w")
  obtain rs1 w2 where t: "run_verify pf e cs w1 = (rs1, w2)"
    by (cases "run_verify pf e cs w1")
  from Cons.prems(1) h t have rs: "rs = r # rs1" and w': "w' = w2" by simp_all
  from Cons.prems(2) have rb: "rollback_fault (fst c) = None" and rbs: "\<forall>c\<in>set cs. rollback_fault (fst c) = None"
    by simp_all
  note step = handleVerifyPayment_step[OF h rb Cons.prems(5)]
  show ?case
  proof (cases "committed r")
    case True
    with step Cons.prems(3) obtain row where
      d: "order_number row = int K + 1"
         "db w1 = \<lparr>counter = Some (int K + 1), payments = payments (db w) @ [row], txn = None\<rparr>"
      by auto
    have "counter (db w1) = Some (int (Suc K))" using d by simp
    moreover have "map order_number (payments (db w1)) = [1..int (Suc K)]"
      using d Cons.prems(4) by (simp only: upto_snoc) simp
    moreover have "txn (db w1) = None" using d by simp
    ultimately show ?thesis
      using Cons.IH[OF t rbs, of "Suc K"] True rs w' by simp
  next
    case False
    with step have "db w1 = db w" by simp
    with Cons.IH[OF t rbs, of K] Cons.prems(3,4,5) False rs w' show ?thesis by simp
  qed
qed

lemmas sample_defs = sample_platform_def sample_env_def no_faults_def initial_world_def
  sample_payment_def verify_request_def create_request_def sample_calls_def

lemma begin_opens:
  assumes "txn (db w) = None"
  shows "issue BeginTransaction (exec_begin None) w =
     (Inr (), \<lparr>db = (db w)\<lparr>txn := Some (counter (db w), payments (db w))\<rparr>,
               trace = trace w @ [Db BeginTransaction]\<rparr>)"
  using assms by (simp add: db_defs)

lemma fits_not_null: "fits a v \<Longrightarrow> not_null v"
  by (cases a; cases v) (simp_all add: not_null_def)

lemma column_value_fits: "fits a v \<Longrightarrow> column_value fl a v = v"
  by (simp add: column_value_def)

lemma verify_transaction_ok:
  assumes "update_fault fl = None" "select_fault fl = None" "insert_fault fl = None"
    "commit_fault fl = None" "counter (db w) = Some T" "txn (db w) = Some snap"
    "not_null (name vals)" "not_null (mobile vals)" "not_null (address vals)" "not_null (amount vals)"
    "not_null (razorpay_order_id vals)" "not_null (razorpay_payment_id vals)"
  shows "verify_transaction fl vals w =
    (Inr (T + 1),
     \<lparr>db = \<lparr>counter = Some (T + 1),
             payments = payments (db w) @ [stored_row fl (vals\<lparr>order_number := T + 1\<rparr>)], txn = None\<rparr>,
      trace = trace w @ [Db UpdateCounter, Db SelectCounter, Db InsertPayment, Db Commit]\<rparr>)"
  using assms by (simp add: verify_transaction_def db_defs)

lemma verify_commits:
  assumes "json req = Inr b" and "has_properties b"
    and "verifySignature pf (js_get b ''razorpay_order_id'') (js_get b ''razorpay_payment_id'')
           (js_get b ''razorpay_signature'') (RZP_SECRET e) = Inr True"
    and "begin_fault fl = None" and "update_fault fl = None" and "select_fault fl = None"
    and "insert_fault fl = None" and "commit_fault fl = None"
    and "fits TEXT (js_get b ''name'')" and "fits TEXT (js_get b ''mobile'')"
    and "fits TEXT (js_get b ''address'')" and "fits INTEGER (js_get b ''amount'')"
    and "fits TEXT (js_get b ''razorpay_order_id'')" and "fits TEXT (js_get b ''razorpay_payment_id'')"
    and "counter (db w) = Some T" and "txn (db w) = None"
  shows "handleVerifyPayment pf e fl req w =
     (Fulfilled \<lparr>status = 200,
                 body = Some (JObj [(''status'', JStr ''success''), (''orderNumber'', JNum (of_int (T + 1)))])\<rparr>,
      \<lparr>db = \<lparr>counter = Some (T + 1),
              payments = payments (db w) @
                [\<lparr>order_number = T + 1,
                  name = js_get b ''name'', mobile = js_get b ''mobile'',
                  address = js_get b ''address'', amount = js_get b ''amount'',
                  razorpay_order_id = js_get b ''razorpay_order_id'',
                  razorpay_payment_id = js_get b ''razorpay_payment_id''\<rparr>],
              txn = None\<rparr>,
       trace = trace w @ [Db BeginTransaction, Db UpdateCounter, Db SelectCounter,
                          Db InsertPayment, Db Commit]\<rparr>)"
proof -
  let ?w1 = "\<lparr>db = (db w)\<lparr>txn := Some (counter (db w), payments (db w))\<rparr>,
               trace = trace w @ [Db BeginTransaction]\<rparr>"
  let ?vals = "\<lparr>order_number = 0,
                   name = js_get b ''name'', mobile = js_get b ''mobile'',
                   address = js_get b ''address'', amount = js_get b ''amount'',
                   razorpay_order_id = js_get b ''razorpay_order_id'',
                   razorpay_payment_id = js_get b ''razorpay_payment_id''\<rparr>"
  have b: "issue BeginTransaction (exec_begin (begin_fault fl)) w = (Inr (), ?w1)"
    using begin_opens[OF assms(16)] assms(4) by simp
  have t: "verify_transaction fl ?vals ?w1 =
    (Inr (T + 1),
     \<lparr>db = \<lparr>counter = Some (T + 1),
             payments = payments (db ?w1) @ [stored_row fl (?vals\<lparr>order_number := T + 1\<rparr>)], txn = None\<rparr>,
      trace = trace ?w1 @ [Db UpdateCounter, Db SelectCounter, Db InsertPayment, Db Commit]\<rparr>)"
    by (rule verify_transaction_ok) (use assms fits_not_null in simp_all)
  have s: "stored_row fl (?vals\<lparr>order_number := T + 1\<rparr>) =
     \<lparr>order_number = T + 1,
                  name = js_get b ''name'', mobile = js_get b ''mobile'',
                  address = js_get b ''address'', amount = js_get b ''amount'',
                  razorpay_order_id = js_get b ''razorpay_order_id'',
                  razorpay_payment_id = js_get b ''razorpay_payment_id''\<rparr>"
    using assms(9-14) by (simp add: stored_row_def column_value_fits)
  show ?thesis
    unfolding handleVerifyPayment_valid[OF assms(1,2,3)] b
    using s by (simp add: t jsonResponse_def)
qed

lemma verify_transaction_fails:
  assumes "update_fault fl \<noteq> None \<or> select_fault fl \<noteq> None \<or> counter (db w) = None
         \<or> insert_fault fl \<noteq> None
         \<or> \<not> (not_null (name vals) \<and> not_null (mobile vals) \<and> not_null (address vals)
               \<and> not_null (amount vals) \<and> not_null (razorpay_order_id vals)
               \<and> not_null (razorpay_payment_id vals))
         \<or> commit_fault fl \<noteq> None"
  shows "\<exists>err w'. verify_transaction fl vals w = (Inl err, w')"
proof (cases "verify_transaction fl vals w")
  case (Pair r w')
  show ?thesis
  proof (cases r)
    case (Inl err)
    with Pair show ?thesis by simp
  next
    case (Inr n)
    with Pair assms have False
      by (auto simp add: verify_transaction_def db_defs split: option.splits if_splits)
    then show ?thesis ..
  qed
qed

lemma digit_char_all: "\<forall>d\<in>set [0..<16]. digit_char d = spec_hex_digit d"
  by code_simp

lemma digit_char_spec: "d < 16 \<Longrightarrow> digit_char d = spec_hex_digit d"
  using digit_char_all by simp

lemma spec_hex_digit_0: "spec_hex_digit 0 = CHR ''0''"
  by code_simp

lemma hex_byte:
  "n < 256 \<Longrightarrow> padStart 2 CHR ''0'' (toString_radix 16 n) = [spec_hex_digit (n div 16), spec_hex_digit (n mod 16)]"
  apply (subst toString_radix.simps)
  apply (subst toString_radix.simps)
  apply (auto simp: padStart_def digit_char_spec div_less_iff_less_mult spec_hex_digit_0)
  done

lemma computed_hex:
  "concat (map (\<lambda>b. padStart 2 CHR ''0'' (toString_radix 16 (unat b))) (sig :: byte list)) = spec_hex sig"
proof -
  have "unat b < 256" for b :: byte
    using unsigned_less [of b] by simp
  then show ?thesis
    by (simp add: spec_hex_def hex_byte)
qed

lemma verifySignature_verdict:
  assumes "encode pf secret \<noteq> []"
    and "ToString pf orderId = Inr order_text" and "ToString pf paymentId = Inr payment_text"
  shows "verifySignature pf orderId paymentId signature secret =
           Inr (signature = JStr (spec_signature pf secret order_text payment_text))"
  using assms by (auto simp: verifySignature_def spec_signature_def computed_hex Let_def)

lemma round_to_double_safe: "\<bar>x\<bar> \<le> 2 ^ 53 \<Longrightarrow> round_to_double x = x"
  by (simp add: round_to_double_def)

lemma getNextOrderInfo_row:
  "getNextOrderInfo None w =
     (Fulfilled (case counter (db w) of
                   Some total_orders \<Rightarrow>
                     (round_to_double total_orders,
                      round_to_double (round_to_double (round_to_double total_orders + 1) * 10))
                 | None \<Rightarrow> (0, 10)),
      w\<lparr>trace := trace w @ [Db SelectCounter]\<rparr>)"
  by (cases "counter (db w)") (simp_all add: getNextOrderInfo_def db_defs round_to_double_safe Let_def)

lemma quote_exact:
  assumes "0 \<le> T" "(T + 1) * 10 \<le> 2 ^ 53"
  shows "round_to_double T = T"
    and "round_to_double (round_to_double (round_to_double T + 1) * 10) = (T + 1) * 10"
proof -
  from assms have a: "\<bar>T\<bar> \<le> 2 ^ 53" "\<bar>T + 1\<bar> \<le> 2 ^ 53" "\<bar>(T + 1) * 10\<bar> \<le> 2 ^ 53"
    by simp_all
  show "round_to_double T = T" using a(1) by (rule round_to_double_safe)
  then show "round_to_double (round_to_double (round_to_double T + 1) * 10) = (T + 1) * 10"
    using a(2,3) by (simp add: round_to_double_safe)
qed

lemma amount_check_iff:
  "(\<not> truthy amt \<or> typeof amt \<noteq> ''number'' \<or> less_than amt 10) \<longleftrightarrow>
     \<not> ((\<exists>q. amt = JNum q \<and> 10 \<le> q) \<or> amt = JInfinity True)"
  by (cases amt) auto

lemma handleCreateOrder_checked:
  assumes "json req = Inr b" "has_properties b"
    "truthy (js_get b ''name'')" "truthy (js_get b ''mobile'')" "truthy (js_get b ''address'')"
  shows "handleCreateOrder pf e reply req w =
     (case test_10_digits pf (js_get b ''mobile'') of
        Inl err \<Rightarrow> (Rejected err, w)
      | Inr matches \<Rightarrow>
          if \<not> matches
          then (Fulfilled (jsonResponse (error_body ''Invalid mobile number'') 400), w)
          else if \<not> truthy (js_get b ''amount'') \<or> typeof (js_get b ''amount'') \<noteq> ''number''
                  \<or> less_than (js_get b ''amount'') 10
          then (Fulfilled (jsonResponse
                  (error_body (''Invalid amount. Minimum amount is '' @ rupee_sign @ ''10'')) 400), w)
          else
            (case createRazorpayOrder (js_get b ''amount'') e reply w of
               (Rejected err, w1) \<Rightarrow> (Rejected err, w1)
             | (Fulfilled order, w1) \<Rightarrow>
                 if \<not> has_properties order then (Rejected type_error, w1)
                 else (Fulfilled (jsonResponse
                         (JObj [(''order_id'', js_get order ''id''), (''amount'', js_get b ''amount''),
                                (''key'', JStr (RZP_KEY_ID e))]) 200), w1)))"
  using assms by (simp add: handleCreateOrder_def Let_def del: append.simps)

lemma fetch_returns_handler_promise:
  assumes "http_method req \<noteq> ''OPTIONS''"
  shows "pathname req = ''/api/next-amount'' \<Longrightarrow>
           fetch pf e fl reply req w = handleNextAmount (select_fault fl) w"
    and "pathname req = ''/api/create-order'' \<Longrightarrow>
           fetch pf e fl reply req w = handleCreateOrder pf e reply req w"
    and "pathname req = ''/api/verify-payment'' \<Longrightarrow>
           fetch pf e fl reply req w = handleVerifyPayment pf e fl req w"
  using assms by (simp_all add: fetch_def call_async_def try_catch_def async_body_def)

lemma sample_signature_valid:
  "verifySignature sample_platform (JStr ''order_1'') (JStr ''pay_1'') (JStr ''060d'') ''s3cret'' = Inr True"
  by (simp add: verifySignature_def sample_platform_def padStart_def toString_radix.simps digit_char_def)

lemma sample_signature_invalid:
  "verifySignature sample_platform (JStr ''order_1'') (JStr ''pay_1'') (JStr ''beef'') ''s3cret'' = Inr False"
  by (simp add: verifySignature_def sample_platform_def padStart_def toString_radix.simps digit_char_def)

lemmas sample_sig = sample_signature_valid[unfolded sample_platform_def]
  sample_signature_invalid[unfolded sample_platform_def]

lemma safe_integer_5: "safe_integer 5"
  by (simp add: safe_integer_def)

lemmas eval_defs = sample_defs handleVerifyPayment_def verify_transaction_def db_defs
  jsonResponse_def error_body_def has_properties_def not_null_def Let_def stored_row_def
  column_value_def safe_integer_5

lemma sample_spec_signature:
  "spec_signature sample_platform ''s3cret'' ''order_1'' ''pay_1'' = ''060d''"
  by code_simp

lemma sample_key: "encode sample_platform ''s3cret'' \<noteq> []"
  by (simp add: sample_platform_def)

lemma sample_texts:
  "ToString sample_platform (JStr ''order_1'') = Inr ''order_1''"
  "ToString sample_platform (JStr ''pay_1'') = Inr ''pay_1''"
  by simp_all

lemma sample_run_committed:
  "length (filter committed (fst (run_verify sample_platform sample_env sample_calls initial_world))) = 2"
  by (simp add: eval_defs sample_sig)

lemma sample_request_fits:
  "json (verify_request sig) = Inr (sample_payment sig)"
  "has_properties (sample_payment sig)"
  "js_get (sample_payment sig) ''razorpay_order_id'' = JStr ''order_1''"
  "js_get (sample_payment sig) ''razorpay_payment_id'' = JStr ''pay_1''"
  "js_get (sample_payment sig) ''razorpay_signature'' = JStr sig"
  "js_get (sample_payment sig) ''name'' = JStr ''Asha''"
  "js_get (sample_payment sig) ''mobile'' = JStr ''12345''"
  "js_get (sample_payment sig) ''address'' = JStr ''Pune''"
  "js_get (sample_payment sig) ''amount'' = JNum 5"
  by (simp_all add: verify_request_def sample_payment_def has_properties_def)

lemma sample_create_order_passes_validation:
  "handleCreateOrder pf e reply (create_request (JStr ''9876543210'') (JNum 20)) w =
     (case createRazorpayOrder (JNum 20) e reply w of
        (Rejected err, w1) \<Rightarrow> (Rejected err, w1)
      | (Fulfilled order, w1) \<Rightarrow>
          if \<not> has_properties order then (Rejected type_error, w1)
          else (Fulfilled (jsonResponse
                  (JObj [(''order_id'', js_get order ''id''), (''amount'', JNum 20),
                         (''key'', JStr (RZP_KEY_ID e))]) 200), w1))"
  by (simp add: handleCreateOrder_def create_request_def has_properties_def test_10_digits_def
      is_digit_def Let_def)

lemma bit_length_bounds: "2 ^ k \<le> n \<Longrightarrow> n < 2 ^ Suc k \<Longrightarrow> bit_length n = Suc k"
proof (induction k arbitrary: n)
  case 0
  then have "n = 1" by simp
  then show ?case by (simp add: bit_length.simps)
next
  case (Suc k)
  then have "2 ^ k \<le> n div 2" "n div 2 < 2 ^ Suc k" by auto
  then have "bit_length (n div 2) = Suc k" by (rule Suc.IH)
  moreover from Suc.prems have "n \<noteq> 0" by auto
  ultimately show ?case by (subst bit_length.simps) simp
qed

lemma quote_beyond_safe_integers:
  "fst (getNextOrderInfo None \<lparr>db = \<lparr>counter = Some (2 ^ 53), payments = [], txn = None\<rparr>, trace = []\<rparr>) =
     Fulfilled (9007199254740992, 90071992547409920)"
proof -
  have b1: "bit_length 9007199254740993 = 54"
    using bit_length_bounds[of 53 9007199254740993] by simp
  have r1: "round_to_double (2 ^ 53 + 1) = 2 ^ 53"
    by (simp add: round_to_double_def b1 Let_def)
  have b2: "bit_length 90071992547409920 = 57"
    using bit_length_bounds[of 56 90071992547409920] by simp
  have r2: "round_to_double (2 ^ 53 * 10) = 90071992547409920"
    by (simp add: round_to_double_def b2 Let_def)
  have r0: "round_to_double (2 ^ 53) = 2 ^ 53"
    by (simp add: round_to_double_def)
  show ?thesis
    unfolding getNextOrderInfo_row by (simp only: r0 r1 r2 store.simps world.simps option.case fst_conv) simp
qed

lemma verifySignature_throws:
  "encode pf secret = [] \<Longrightarrow> verifySignature pf orderId paymentId signature secret = Inl key_error"
  "encode pf secret \<noteq> [] \<Longrightarrow> ToString pf orderId = Inl err \<Longrightarrow>
     verifySignature pf orderId paymentId signature secret = Inl err"
  "encode pf secret \<noteq> [] \<Longrightarrow> ToString pf orderId = Inr order_text \<Longrightarrow>
     ToString pf paymentId = Inl err \<Longrightarrow>
     verifySignature pf orderId paymentId signature secret = Inl err"
  by (simp_all add: verifySignature_def)

lemma handleVerifyPayment_check_throws:
  assumes "json req = Inr b" and "has_properties b"
    and "verifySignature pf (js_get b ''razorpay_order_id'') (js_get b ''razorpay_payment_id'')
           (js_get b ''razorpay_signature'') (RZP_SECRET e) = Inl err"
  shows "handleVerifyPayment pf e fl req w = (Rejected err, w)"
  using assms by (simp add: handleVerifyPayment_def Let_def)

lemma ToString_own_toString:
  "ToString pf (JObj [(''toString'', JNum 1)]) = Inl conversion_error"
  "ToString pf (JArr [JStr ''98765'', JObj [(''toString'', JNum 1)]]) = Inl conversion_error"
  "ToString pf (JObj [(''valueOf'', JNum 1)]) = Inr ''[object Object]''"
  "ToString pf (JArr [JStr ''98765'', JNull, JArr [JStr ''43210'']]) = Inr ''98765,,43210''"
  by simp_all

section \<open>The claims\<close>

text \<open>
  Claim C1. Let verification requests be handled one after the other, starting from
  the store the schema script creates (counter 0, no payment, no open transaction),
  and let \<open>M\<close> be the number of requests that committed. Then the order numbers of the
  payment records are exactly \<open>1, \<dots>, M\<close>, without duplicates; the counter is \<open>M\<close>, the
  number of payment records is \<open>M\<close>, and the largest order number is \<open>M\<close> (0 when
  there is no record). The sequence is arbitrary, so this holds after every request
  of a longer sequence. Requests whose signature is wrong or cannot be checked,
  whose body cannot be read and whose statements the store refuses are all allowed;
  the one assumption on the store is the specification's own (no partial failure
  leaves orphaned state): a \<^verbatim>\<open>ROLLBACK\<close> that the worker issues is carried out.
\<close>

theorem order_numbers_contiguous:
  assumes "counter (db w) = Some 0" and "payments (db w) = []" and "txn (db w) = None"
    and "\<forall>c\<in>set calls. rollback_fault (fst c) = None"
    and "run_verify pf e calls w = (rs, w')"
  shows "set (map order_number (payments (db w'))) = {1..int (length (filter committed rs))}
       \<and> distinct (map order_number (payments (db w')))
       \<and> counter (db w') = Some (int (length (filter committed rs)))
       \<and> length (payments (db w')) = length (filter committed rs)
       \<and> (if payments (db w') = [] then 0 else Max (set (map order_number (payments (db w')))))
           = int (length (filter committed rs))"
proof -
  let ?M = "length (filter committed rs)"
  from run_verify_invariant[OF assms(5,4), of 0] assms(1,2,3)
  have c: "counter (db w') = Some (int ?M)"
    and m: "map order_number (payments (db w')) = [1..int ?M]"
    by simp_all
  have s: "set (map order_number (payments (db w'))) = {1..int ?M}"
    unfolding m by simp
  have d: "distinct (map order_number (payments (db w')))"
    unfolding m by simp
  have l: "length (payments (db w')) = ?M"
    using arg_cong[OF m, of length] by simp
  have x: "(if payments (db w') = [] then 0 else Max (set (map order_number (payments (db w'))))) = int ?M"
  proof (cases "payments (db w') = []")
    case True
    with l show ?thesis by simp
  next
    case False
    with l have "1 \<le> int ?M" by (cases "payments (db w')") auto
    then have "Max {1..int ?M} = int ?M"
      by (intro Max_eqI) simp_all
    with False s show ?thesis by simp
  qed
  from s d c l x show ?thesis by blast
qed

theorem order_numbers_contiguous_witness:
  "length (filter committed (fst (run_verify sample_platform sample_env sample_calls initial_world))) = 2
   \<and> set (map order_number (payments (db (snd (run_verify sample_platform sample_env sample_calls initial_world)))))
       = {1..2}
   \<and> counter (db (snd (run_verify sample_platform sample_env sample_calls initial_world))) = Some 2
   \<and> length (payments (db (snd (run_verify sample_platform sample_env sample_calls initial_world)))) = 2"
proof -
  let ?run = "run_verify sample_platform sample_env sample_calls initial_world"
  have h1: "counter (db initial_world) = Some 0" by (simp add: initial_world_def)
  have h2: "payments (db initial_world) = []" by (simp add: initial_world_def)
  have h3: "txn (db initial_world) = None" by (simp add: initial_world_def)
  have h4: "\<forall>c\<in>set sample_calls. rollback_fault (fst c) = None"
    by (simp add: sample_calls_def no_faults_def)
  have h5: "?run = (fst ?run, snd ?run)" by simp
  from order_numbers_contiguous[OF h1 h2 h3 h4 h5] sample_run_committed show ?thesis by simp
qed

text \<open>
  Claim C2. Take a verification request whose signature is valid and whose storage step
  succeeds: the store refuses no statement of the transaction, the counter row
  exists with a value \<open>T\<close> that is not negative and with \<open>T + 1\<close> at most \<open>2\<^sup>5\<^sup>3\<close> (so
  that the JavaScript number read back is the counter), no transaction is open, and
  each supplied value has the type of its column (name, mobile, address, order id
  and payment id are strings, the amount is an integer of magnitude up to \<open>2\<^sup>5\<^sup>3\<close>).
  Then the counter moves to \<open>T + 1\<close>, exactly one payment record is appended, with
  order number \<open>T + 1\<close> and the name, mobile, address, amount, order id and payment id
  of the request, and the answer is 200 with
  \<^verbatim>\<open>{ status: "success", orderNumber: T + 1 }\<close>. The statements sent to the store are
  begin, update, select, insert, commit.
\<close>

theorem verify_success:
  assumes "json req = Inr b" and "has_properties b"
    and "verifySignature pf (js_get b ''razorpay_order_id'') (js_get b ''razorpay_payment_id'')
           (js_get b ''razorpay_signature'') (RZP_SECRET e) = Inr True"
    and "begin_fault fl = None" and "update_fault fl = None" and "select_fault fl = None"
    and "insert_fault fl = None" and "commit_fault fl = None"
    and "fits TEXT (js_get b ''name'')" and "fits TEXT (js_get b ''mobile'')"
    and "fits TEXT (js_get b ''address'')" and "fits INTEGER (js_get b ''amount'')"
    and "fits TEXT (js_get b ''razorpay_order_id'')" and "fits TEXT (js_get b ''razorpay_payment_id'')"
    and "counter (db w) = Some T" and "0 \<le> T" and "T + 1 \<le> 2 ^ 53" and "txn (db w) = None"
  shows "handleVerifyPayment pf e fl req w =
     (Fulfilled \<lparr>status = 200,
                 body = Some (JObj [(''status'', JStr ''success''), (''orderNumber'', JNum (of_int (T + 1)))])\<rparr>,
      \<lparr>db = \<lparr>counter = Some (T + 1),
              payments = payments (db w) @
                [\<lparr>order_number = T + 1,
                  name = js_get b ''name'', mobile = js_get b ''mobile'',
                  address = js_get b ''address'', amount = js_get b ''amount'',
                  razorpay_order_id = js_get b ''razorpay_order_id'',
                  razorpay_payment_id = js_get b ''razorpay_payment_id''\<rparr>],
              txn = None\<rparr>,
       trace = trace w @ [Db BeginTransaction, Db UpdateCounter, Db SelectCounter,
                          Db InsertPayment, Db Commit]\<rparr>)"
  using assms(1-15,18) by (rule verify_commits)

theorem verify_success_witness:
  "handleVerifyPayment sample_platform sample_env no_faults (verify_request ''060d'') initial_world =
     (Fulfilled \<lparr>status = 200,
                 body = Some (JObj [(''status'', JStr ''success''), (''orderNumber'', JNum 1)])\<rparr>,
      \<lparr>db = \<lparr>counter = Some 1,
              payments = [\<lparr>order_number = 1, name = JStr ''Asha'', mobile = JStr ''12345'',
                           address = JStr ''Pune'', amount = JNum 5,
                           razorpay_order_id = JStr ''order_1'',
                           razorpay_payment_id = JStr ''pay_1''\<rparr>],
              txn = None\<rparr>,
       trace = [Db BeginTransaction, Db UpdateCounter, Db SelectCounter, Db InsertPayment, Db Commit]\<rparr>)"
  using verify_success[of "verify_request ''060d''" "sample_payment ''060d''" sample_platform sample_env
      no_faults initial_world 0]
  by (simp add: sample_request_fits sample_signature_valid safe_integer_5 sample_env_def no_faults_def
      initial_world_def)

text \<open>
  Claim C3. \<^verbatim>\<open>verifySignature\<close> accepts exactly when the server's secret is not
  empty, the order id and the payment id have a text, and the signature sent by the
  client is the string that is the lowercase hexadecimal encoding of the
  HMAC-SHA-256 digest, under the secret, of the encoded text of the order id, a
  vertical bar and the text of the payment id. With such a secret and such ids its
  verdict is that comparison, so every other signature, also one that is no string,
  is found invalid. (With an empty secret, or an id that cannot be converted to a
  string, the check throws and gives no verdict.)
\<close>

theorem verifySignature_iff:
  "(verifySignature pf orderId paymentId signature secret = Inr True \<longleftrightarrow>
      encode pf secret \<noteq> [] \<and>
      (\<exists>order_text payment_text.
          ToString pf orderId = Inr order_text \<and> ToString pf paymentId = Inr payment_text \<and>
          signature = JStr (spec_signature pf secret order_text payment_text)))
   \<and> (encode pf secret \<noteq> [] \<and> ToString pf orderId = Inr order_text
        \<and> ToString pf paymentId = Inr payment_text \<longrightarrow>
      verifySignature pf orderId paymentId signature secret =
        Inr (signature = JStr (spec_signature pf secret order_text payment_text)))"
proof (intro conjI impI iffI)
  assume a: "verifySignature pf orderId paymentId signature secret = Inr True"
  then show "encode pf secret \<noteq> []"
    by (auto simp: verifySignature_def Let_def split: if_splits)
  from a show "\<exists>order_text payment_text.
          ToString pf orderId = Inr order_text \<and> ToString pf paymentId = Inr payment_text \<and>
          signature = JStr (spec_signature pf secret order_text payment_text)"
    by (auto simp: verifySignature_def spec_signature_def computed_hex Let_def
        split: if_splits sum.splits)
next
  assume "encode pf secret \<noteq> [] \<and>
      (\<exists>order_text payment_text.
          ToString pf orderId = Inr order_text \<and> ToString pf paymentId = Inr payment_text \<and>
          signature = JStr (spec_signature pf secret order_text payment_text))"
  then show "verifySignature pf orderId paymentId signature secret = Inr True"
    using verifySignature_verdict[of pf secret orderId _ paymentId _ signature] by auto
next
  assume "encode pf secret \<noteq> [] \<and> ToString pf orderId = Inr order_text
        \<and> ToString pf paymentId = Inr payment_text"
  then show "verifySignature pf orderId paymentId signature secret =
        Inr (signature = JStr (spec_signature pf secret order_text payment_text))"
    using verifySignature_verdict[of pf secret orderId order_text paymentId payment_text signature]
    by simp
qed

theorem verifySignature_iff_witness:
  "verifySignature sample_platform (JStr ''order_1'') (JStr ''pay_1'') (JStr ''060d'') ''s3cret'' = Inr True
   \<and> verifySignature sample_platform (JStr ''order_1'') (JStr ''pay_1'') (JStr ''060D'') ''s3cret'' = Inr False"
  using verifySignature_iff[of sample_platform "JStr ''order_1''" "JStr ''pay_1''" "JStr ''060d''" "''s3cret''"
      "''order_1''" "''pay_1''"]
    verifySignature_iff[of sample_platform "JStr ''order_1''" "JStr ''pay_1''" "JStr ''060D''" "''s3cret''"
      "''order_1''" "''pay_1''"]
  by (simp add: sample_spec_signature sample_key sample_texts)

text \<open>
  Claim C4. A verification request whose body can be read (it parses, and not to
  \<^verbatim>\<open>null\<close>) and whose signature fails verification (the check gives the verdict
  false) is answered with status 400 and the error \<^verbatim>\<open>Invalid payment signature\<close>, and
  the world is left as it was: counter and payments are unchanged and no statement at
  all, so no \<^verbatim>\<open>BEGIN TRANSACTION\<close> either, has been sent to the store.
\<close>

theorem invalid_signature_rejected:
  assumes "json req = Inr b" and "has_properties b"
    and "verifySignature pf (js_get b ''razorpay_order_id'') (js_get b ''razorpay_payment_id'')
             (js_get b ''razorpay_signature'') (RZP_SECRET e) = Inr False"
  shows "handleVerifyPayment pf e fl req w =
     (Fulfilled \<lparr>status = 400, body = Some (JObj [(''error'', JStr ''Invalid payment signature'')])\<rparr>, w)"
  using assms by (simp add: handleVerifyPayment_def Let_def jsonResponse_def error_body_def)

theorem invalid_signature_rejected_witness:
  "handleVerifyPayment sample_platform sample_env no_faults (verify_request ''beef'') initial_world =
     (Fulfilled \<lparr>status = 400, body = Some (JObj [(''error'', JStr ''Invalid payment signature'')])\<rparr>,
      initial_world)"
  using invalid_signature_rejected[of "verify_request ''beef''" "sample_payment ''beef''" sample_platform
      sample_env no_faults initial_world]
  by (simp add: sample_request_fits sample_signature_invalid sample_env_def)

text \<open>
  Claim C5. Once the transaction of a verification request has opened, the failure of
  any of its steps (the increment, the read-back, be it refused or without a row, the
  insert, be it refused or with a null value, and also the commit) ends, when the store
  carries out the \<^verbatim>\<open>ROLLBACK\<close> the worker then issues, with the store exactly as it was
  before the request, so the counter has its value from before the increment and no
  payment record has been added, and with a response of status 500 whose error
  message begins with \<^verbatim>\<open>Database error: \<close>. The last statement sent to the store is
  the rollback.
\<close>

theorem storage_failure_rolls_back:
  assumes "json req = Inr b" and "has_properties b"
    and "verifySignature pf (js_get b ''razorpay_order_id'') (js_get b ''razorpay_payment_id'')
           (js_get b ''razorpay_signature'') (RZP_SECRET e) = Inr True"
    and "begin_fault fl = None" and "txn (db w) = None"
    and "rollback_fault fl = None"
    and "update_fault fl \<noteq> None \<or> select_fault fl \<noteq> None \<or> counter (db w) = None
         \<or> insert_fault fl \<noteq> None
         \<or> \<not> (not_null (js_get b ''name'') \<and> not_null (js_get b ''mobile'')
               \<and> not_null (js_get b ''address'') \<and> not_null (js_get b ''amount'')
               \<and> not_null (js_get b ''razorpay_order_id'')
               \<and> not_null (js_get b ''razorpay_payment_id''))
         \<or> commit_fault fl \<noteq> None"
  shows "\<exists>msg. fst (handleVerifyPayment pf e fl req w) =
            Fulfilled \<lparr>status = 500,
                        body = Some (JObj [(''error'', JStr (''Database error: '' @ msg))])\<rparr>
          \<and> db (snd (handleVerifyPayment pf e fl req w)) = db w
          \<and> last (trace (snd (handleVerifyPayment pf e fl req w))) = Db Rollback"
proof -
  let ?w1 = "\<lparr>db = (db w)\<lparr>txn := Some (counter (db w), payments (db w))\<rparr>,
               trace = trace w @ [Db BeginTransaction]\<rparr>"
  let ?vals = "\<lparr>order_number = 0,
                   name = js_get b ''name'', mobile = js_get b ''mobile'',
                   address = js_get b ''address'', amount = js_get b ''amount'',
                   razorpay_order_id = js_get b ''razorpay_order_id'',
                   razorpay_payment_id = js_get b ''razorpay_payment_id''\<rparr>"
  have b: "issue BeginTransaction (exec_begin (begin_fault fl)) w = (Inr (), ?w1)"
    using begin_opens[OF assms(5)] assms(4) by simp
  have "\<exists>err w2. verify_transaction fl ?vals ?w1 = (Inl err, w2)"
    by (rule verify_transaction_fails) (use assms(7) in simp)
  then obtain err w2 where t: "verify_transaction fl ?vals ?w1 = (Inl err, w2)" by blast
  have "txn (db w2) = Some (counter (db w), payments (db w))"
    by (rule verify_transaction_Inl[OF t]) simp
  from rollback_restores[OF this] obtain w3 where
    w3: "issue Rollback (exec_rollback None) w2 = (Inr (), w3)"
        "db w3 = \<lparr>counter = counter (db w), payments = payments (db w), txn = None\<rparr>"
        "trace w3 = trace w2 @ [Db Rollback]"
    by blast
  have "handleVerifyPayment pf e fl req w =
          (Fulfilled (jsonResponse (error_body (''Database error: '' @ err)) 500), w3)"
    unfolding handleVerifyPayment_valid[OF assms(1,2,3)] b
    by (simp add: t assms(6) w3(1))
  with w3 assms(5) show ?thesis
    by (simp add: jsonResponse_def error_body_def)
qed

theorem storage_failure_rolls_back_witness:
  "\<exists>msg. fst (handleVerifyPayment sample_platform sample_env (no_faults\<lparr>insert_fault := Some ''disk full''\<rparr>)
               (verify_request ''060d'') initial_world) =
            Fulfilled \<lparr>status = 500,
                        body = Some (JObj [(''error'', JStr (''Database error: '' @ msg))])\<rparr>
          \<and> db (snd (handleVerifyPayment sample_platform sample_env (no_faults\<lparr>insert_fault := Some ''disk full''\<rparr>)
               (verify_request ''060d'') initial_world)) = db initial_world
          \<and> last (trace (snd (handleVerifyPayment sample_platform sample_env
               (no_faults\<lparr>insert_fault := Some ''disk full''\<rparr>)
               (verify_request ''060d'') initial_world))) = Db Rollback"
proof (rule storage_failure_rolls_back[of "verify_request ''060d''" "sample_payment ''060d''"])
  show "json (verify_request ''060d'') = Inr (sample_payment ''060d'')"
    by (simp add: verify_request_def)
  show "has_properties (sample_payment ''060d'')"
    by (simp add: sample_payment_def has_properties_def)
  show "verifySignature sample_platform (js_get (sample_payment ''060d'') ''razorpay_order_id'')
          (js_get (sample_payment ''060d'') ''razorpay_payment_id'')
          (js_get (sample_payment ''060d'') ''razorpay_signature'') (RZP_SECRET sample_env) = Inr True"
    by (simp add: sample_request_fits sample_env_def sample_signature_valid)
  show "begin_fault (no_faults\<lparr>insert_fault := Some ''disk full''\<rparr>) = None"
    by (simp add: no_faults_def)
  show "txn (db initial_world) = None" by (simp add: initial_world_def)
  show "rollback_fault (no_faults\<lparr>insert_fault := Some ''disk full''\<rparr>) = None"
    by (simp add: no_faults_def)
  show "update_fault (no_faults\<lparr>insert_fault := Some ''disk full''\<rparr>) \<noteq> None
      \<or> select_fault (no_faults\<lparr>insert_fault := Some ''disk full''\<rparr>) \<noteq> None
      \<or> counter (db initial_world) = None
      \<or> insert_fault (no_faults\<lparr>insert_fault := Some ''disk full''\<rparr>) \<noteq> None
      \<or> \<not> (not_null (js_get (sample_payment ''060d'') ''name'')
            \<and> not_null (js_get (sample_payment ''060d'') ''mobile'')
            \<and> not_null (js_get (sample_payment ''060d'') ''address'')
            \<and> not_null (js_get (sample_payment ''060d'') ''amount'')
            \<and> not_null (js_get (sample_payment ''060d'') ''razorpay_order_id'')
            \<and> not_null (js_get (sample_payment ''060d'') ''razorpay_payment_id''))
      \<or> commit_fault (no_faults\<lparr>insert_fault := Some ''disk full''\<rparr>) \<noteq> None"
    by (simp add: no_faults_def)
qed

text \<open>
  Claim C6. When the counter is \<open>T\<close>, not negative and with \<open>(T + 1) * 10\<close> at most
  \<open>2\<^sup>5\<^sup>3\<close> (so that the double arithmetic of the worker is exact),
  \<^verbatim>\<open>getNextOrderInfo\<close> gives the next amount \<open>(T + 1) * 10\<close>, which
  \<^verbatim>\<open>handleNextAmount\<close> sends with status 200, and leaves the store as it is (the trace
  gains the one query). Hence after verification requests handled from the initial
  store, of which \<open>N\<close> committed, the next quote is \<open>(N + 1) * 10\<close>, under the same
  bound on \<open>N\<close>. The sequence of requests is as in claim C1.
\<close>

theorem next_amount_quote:
  "(counter (db w) = Some T \<and> 0 \<le> T \<and> (T + 1) * 10 \<le> 2 ^ 53 \<longrightarrow>
      getNextOrderInfo None w = (Fulfilled (T, (T + 1) * 10), w\<lparr>trace := trace w @ [Db SelectCounter]\<rparr>)
      \<and> db (snd (getNextOrderInfo None w)) = db w
      \<and> fst (handleNextAmount None w) =
          Fulfilled \<lparr>status = 200, body = Some (JObj [(''nextAmount'', JNum (of_int ((T + 1) * 10)))])\<rparr>)
   \<and> (counter (db w0) = Some 0 \<and> payments (db w0) = [] \<and> txn (db w0) = None
        \<and> (\<forall>c\<in>set calls. rollback_fault (fst c) = None)
        \<and> run_verify pf e calls w0 = (rs, w1)
        \<and> (int (length (filter committed rs)) + 1) * 10 \<le> 2 ^ 53 \<longrightarrow>
      fst (getNextOrderInfo None w1) =
        Fulfilled (int (length (filter committed rs)), (int (length (filter committed rs)) + 1) * 10))"
proof (intro conjI impI)
  assume a: "counter (db w) = Some T \<and> 0 \<le> T \<and> (T + 1) * 10 \<le> 2 ^ 53"
  then have q: "round_to_double T = T"
    "round_to_double (round_to_double (round_to_double T + 1) * 10) = (T + 1) * 10"
    using quote_exact[of T] by simp_all
  from a q show g: "getNextOrderInfo None w =
      (Fulfilled (T, (T + 1) * 10), w\<lparr>trace := trace w @ [Db SelectCounter]\<rparr>)"
    by (simp add: getNextOrderInfo_row)
  then show "db (snd (getNextOrderInfo None w)) = db w" by simp
  from g show "fst (handleNextAmount None w) =
          Fulfilled \<lparr>status = 200, body = Some (JObj [(''nextAmount'', JNum (of_int ((T + 1) * 10)))])\<rparr>"
    by (simp add: handleNextAmount_def jsonResponse_def)
next
  let ?N = "int (length (filter committed rs))"
  assume a: "counter (db w0) = Some 0 \<and> payments (db w0) = [] \<and> txn (db w0) = None
        \<and> (\<forall>c\<in>set calls. rollback_fault (fst c) = None)
        \<and> run_verify pf e calls w0 = (rs, w1)
        \<and> (?N + 1) * 10 \<le> 2 ^ 53"
  then have c: "counter (db w1) = Some ?N"
    using run_verify_invariant[of pf e calls w0 rs w1 0] by simp
  from a have q: "round_to_double ?N = ?N"
    "round_to_double (round_to_double (round_to_double ?N + 1) * 10) = (?N + 1) * 10"
    using quote_exact[of ?N] by simp_all
  from c q show "fst (getNextOrderInfo None w1) = Fulfilled (?N, (?N + 1) * 10)"
    by (simp add: getNextOrderInfo_row)
qed

theorem next_amount_quote_witness:
  "getNextOrderInfo None initial_world =
     (Fulfilled (0, 10), initial_world\<lparr>trace := trace initial_world @ [Db SelectCounter]\<rparr>)
   \<and> fst (getNextOrderInfo None
          (snd (run_verify sample_platform sample_env sample_calls initial_world))) = Fulfilled (2, 30)"
proof -
  let ?run = "run_verify sample_platform sample_env sample_calls initial_world"
  have h1: "counter (db initial_world) = Some 0" by (simp add: initial_world_def)
  have h2: "payments (db initial_world) = []" by (simp add: initial_world_def)
  have h3: "txn (db initial_world) = None" by (simp add: initial_world_def)
  have h4: "\<forall>c\<in>set sample_calls. rollback_fault (fst c) = None"
    by (simp add: sample_calls_def no_faults_def)
  have h5: "?run = (fst ?run, snd ?run)" by simp
  from next_amount_quote[of initial_world 0 initial_world sample_calls sample_platform sample_env
      "fst ?run" "snd ?run"] h1 h2 h3 h4 h5 sample_run_committed
  show ?thesis by simp
qed

text \<open>
  Claim C7, as amended. On a request whose body can be read (it parses, and not to
  \<^verbatim>\<open>null\<close>), \<^verbatim>\<open>handleCreateOrder\<close> checks in this order and stops at the first check
  that fails, each time with the world unchanged, so that no request has gone to the
  payment provider and the store is untouched:
  \<^item> name, mobile or address is falsy (absent, null, the empty string, also 0 and
    false): status 400, \<^verbatim>\<open>All fields are required\<close>;
  \<^item> otherwise, the conversion of the mobile number to a string throws: the promise
    of the handler is rejected with that error, and there is no response;
  \<^item> otherwise, the mobile number, converted to a string (a string is converted to
    itself), is not exactly ten decimal digits: status 400,
    \<^verbatim>\<open>Invalid mobile number\<close>;
  \<^item> otherwise, the amount is not a number that is at least 10: status 400, the
    message for an invalid amount.
\<close>

theorem create_order_validation:
  assumes "json req = Inr b" and "has_properties b"
  shows "(\<not> truthy (js_get b ''name'') \<or> \<not> truthy (js_get b ''mobile'') \<or> \<not> truthy (js_get b ''address'') \<longrightarrow>
            handleCreateOrder pf e reply req w =
              (Fulfilled \<lparr>status = 400, body = Some (JObj [(''error'', JStr ''All fields are required'')])\<rparr>, w))
       \<and> (truthy (js_get b ''name'') \<and> truthy (js_get b ''mobile'') \<and> truthy (js_get b ''address'')
          \<and> ToString pf (js_get b ''mobile'') = Inl err \<longrightarrow>
            handleCreateOrder pf e reply req w = (Rejected err, w))
       \<and> (truthy (js_get b ''name'') \<and> truthy (js_get b ''mobile'') \<and> truthy (js_get b ''address'')
          \<and> ToString pf (js_get b ''mobile'') = Inr s
          \<and> \<not> (length s = 10 \<and> (\<forall>c\<in>set s. c \<in> set ''0123456789'')) \<longrightarrow>
            handleCreateOrder pf e reply req w =
              (Fulfilled \<lparr>status = 400, body = Some (JObj [(''error'', JStr ''Invalid mobile number'')])\<rparr>, w))
       \<and> (truthy (js_get b ''name'') \<and> truthy (js_get b ''mobile'') \<and> truthy (js_get b ''address'')
          \<and> ToString pf (js_get b ''mobile'') = Inr s
          \<and> length s = 10 \<and> (\<forall>c\<in>set s. c \<in> set ''0123456789'')
          \<and> \<not> ((\<exists>q. js_get b ''amount'' = JNum q \<and> 10 \<le> q) \<or> js_get b ''amount'' = JInfinity True) \<longrightarrow>
            handleCreateOrder pf e reply req w =
              (Fulfilled \<lparr>status = 400,
                          body = Some (JObj [(''error'',
                                   JStr (''Invalid amount. Minimum amount is '' @ rupee_sign @ ''10''))])\<rparr>, w))"
proof (intro conjI impI)
  assume "\<not> truthy (js_get b ''name'') \<or> \<not> truthy (js_get b ''mobile'') \<or> \<not> truthy (js_get b ''address'')"
  with assms show "handleCreateOrder pf e reply req w =
      (Fulfilled \<lparr>status = 400, body = Some (JObj [(''error'', JStr ''All fields are required'')])\<rparr>, w)"
    by (auto simp add: handleCreateOrder_def Let_def jsonResponse_def error_body_def)
next
  assume a: "truthy (js_get b ''name'') \<and> truthy (js_get b ''mobile'') \<and> truthy (js_get b ''address'')
          \<and> ToString pf (js_get b ''mobile'') = Inl err"
  then show "handleCreateOrder pf e reply req w = (Rejected err, w)"
    using handleCreateOrder_checked[OF assms, of pf e reply w] by (simp add: test_10_digits_def)
next
  assume a: "truthy (js_get b ''name'') \<and> truthy (js_get b ''mobile'') \<and> truthy (js_get b ''address'')
          \<and> ToString pf (js_get b ''mobile'') = Inr s
          \<and> \<not> (length s = 10 \<and> (\<forall>c\<in>set s. c \<in> set ''0123456789''))"
  then have "test_10_digits pf (js_get b ''mobile'') = Inr False"
    by (auto simp: test_10_digits_def is_digit_def list_all_iff)
  with a show "handleCreateOrder pf e reply req w =
      (Fulfilled \<lparr>status = 400, body = Some (JObj [(''error'', JStr ''Invalid mobile number'')])\<rparr>, w)"
    using handleCreateOrder_checked[OF assms, of pf e reply w]
    by (simp add: jsonResponse_def error_body_def)
next
  assume a: "truthy (js_get b ''name'') \<and> truthy (js_get b ''mobile'') \<and> truthy (js_get b ''address'')
          \<and> ToString pf (js_get b ''mobile'') = Inr s
          \<and> length s = 10 \<and> (\<forall>c\<in>set s. c \<in> set ''0123456789'')
          \<and> \<not> ((\<exists>q. js_get b ''amount'' = JNum q \<and> 10 \<le> q) \<or> js_get b ''amount'' = JInfinity True)"
  then have m: "test_10_digits pf (js_get b ''mobile'') = Inr True"
    by (auto simp: test_10_digits_def is_digit_def list_all_iff)
  from a have c: "\<not> truthy (js_get b ''amount'') \<or> typeof (js_get b ''amount'') \<noteq> ''number''
               \<or> less_than (js_get b ''amount'') 10"
    by (simp only: amount_check_iff) simp
  have "handleCreateOrder pf e reply req w =
      (Fulfilled (jsonResponse
                        (error_body (''Invalid amount. Minimum amount is '' @ rupee_sign @ ''10'')) 400), w)"
    using handleCreateOrder_checked[OF assms, of pf e reply w] a m c by (simp del: append.simps)
  then show "handleCreateOrder pf e reply req w =
      (Fulfilled \<lparr>status = 400,
                  body = Some (JObj [(''error'',
                           JStr (''Invalid amount. Minimum amount is '' @ rupee_sign @ ''10''))])\<rparr>, w)"
    by (simp add: jsonResponse_def error_body_def)
qed

theorem create_order_validation_witness:
  "handleCreateOrder sample_platform sample_env NotOk (create_request (JStr ''12345'') (JNum 20)) initial_world =
     (Fulfilled \<lparr>status = 400, body = Some (JObj [(''error'', JStr ''Invalid mobile number'')])\<rparr>,
      initial_world)
   \<and> handleCreateOrder sample_platform sample_env NotOk (create_request (JStr []) (JNum 20)) initial_world =
     (Fulfilled \<lparr>status = 400, body = Some (JObj [(''error'', JStr ''All fields are required'')])\<rparr>,
      initial_world)
   \<and> handleCreateOrder sample_platform sample_env NotOk (create_request (JStr ''9876543210'') (JNum 9))
        initial_world =
     (Fulfilled \<lparr>status = 400,
                 body = Some (JObj [(''error'',
                          JStr (''Invalid amount. Minimum amount is '' @ rupee_sign @ ''10''))])\<rparr>,
      initial_world)
   \<and> handleCreateOrder sample_platform sample_env NotOk
        (create_request (JArr [JObj [(''toString'', JNull)]]) (JNum 20)) initial_world =
     (Rejected conversion_error, initial_world)"
proof -
  let ?b = "\<lambda>mob amt. JObj [(''name'', JStr ''Asha''), (''mobile'', mob),
                        (''address'', JStr ''Pune''), (''amount'', amt)]"
  have j: "json (create_request mob amt) = Inr (?b mob amt)" for mob amt
    by (simp add: create_request_def)
  have p: "has_properties (?b mob amt)" for mob amt
    by (simp add: has_properties_def)
  from create_order_validation[OF j[of "JStr ''12345''" "JNum 20"] p[of "JStr ''12345''" "JNum 20"],
      where pf = sample_platform and err = conversion_error and s = "''12345''" and e = sample_env
        and reply = NotOk and w = initial_world]
  have 1: "handleCreateOrder sample_platform sample_env NotOk (create_request (JStr ''12345'') (JNum 20))
        initial_world =
     (Fulfilled \<lparr>status = 400, body = Some (JObj [(''error'', JStr ''Invalid mobile number'')])\<rparr>,
      initial_world)"
    by simp
  from create_order_validation[OF j[of "JStr []" "JNum 20"] p[of "JStr []" "JNum 20"],
      where pf = sample_platform and err = conversion_error and s = "[]" and e = sample_env
        and reply = NotOk and w = initial_world]
  have 2: "handleCreateOrder sample_platform sample_env NotOk (create_request (JStr []) (JNum 20)) initial_world =
     (Fulfilled \<lparr>status = 400, body = Some (JObj [(''error'', JStr ''All fields are required'')])\<rparr>,
      initial_world)"
    by simp
  from create_order_validation[OF j[of "JStr ''9876543210''" "JNum 9"] p[of "JStr ''9876543210''" "JNum 9"],
      where pf = sample_platform and err = conversion_error and s = "''9876543210''" and e = sample_env
        and reply = NotOk and w = initial_world]
  have 3: "handleCreateOrder sample_platform sample_env NotOk (create_request (JStr ''9876543210'') (JNum 9))
        initial_world =
     (Fulfilled \<lparr>status = 400,
                 body = Some (JObj [(''error'',
                          JStr (''Invalid amount. Minimum amount is '' @ rupee_sign @ ''10''))])\<rparr>,
      initial_world)"
    by simp
  from create_order_validation[OF j[of "JArr [JObj [(''toString'', JNull)]]" "JNum 20"] p[of "JArr [JObj [(''toString'', JNull)]]" "JNum 20"],
      where pf = sample_platform and err = conversion_error and s = "[]" and e = sample_env
        and reply = NotOk and w = initial_world]
  have 4: "handleCreateOrder sample_platform sample_env NotOk
        (create_request (JArr [JObj [(''toString'', JNull)]]) (JNum 20)) initial_world =
     (Rejected conversion_error, initial_world)"
    by simp
  from 1 2 3 4 show ?thesis by blast
qed

text \<open>
  The claim as it was stated promises status 400 whenever the mobile number is not
  ten decimal digits. It fails for a mobile number that is an object with a member
  named \<^verbatim>\<open>toString\<close>: the test of the regular expression throws, and the promise of
  the handler is rejected.
\<close>

theorem create_order_throwing_mobile:
  "handleCreateOrder sample_platform sample_env NotOk
     (create_request (JObj [(''toString'', JNum 1)]) (JNum 20)) initial_world =
   (Rejected ''Cannot convert object to primitive value'', initial_world)"
  by (simp add: handleCreateOrder_def create_request_def has_properties_def test_10_digits_def
      conversion_error_def Let_def)

text \<open>
  Claim C8. The entry point returns the promise of the handler it calls without
  awaiting it, so its \<^verbatim>\<open>catch\<close> clause never sees a rejection of that promise. For
  a well-formed order request to which the payment provider answers with a non-2xx
  status, the promise of \<^verbatim>\<open>fetch\<close> is rejected with the error of
  \<^verbatim>\<open>createRazorpayOrder\<close>; no response with status 500 is produced.
\<close>

theorem fetch_provider_failure_escapes:
  "fetch sample_platform sample_env no_faults NotOk
     (create_request (JStr ''9876543210'') (JNum 20)) initial_world =
   (Rejected ''Razorpay order creation failed'',
    \<lparr>db = \<lparr>counter = Some 0, payments = [], txn = None\<rparr>, trace = [ProviderFetch (JNum 20)]\<rparr>)"
proof -
  have "fetch sample_platform sample_env no_faults NotOk
          (create_request (JStr ''9876543210'') (JNum 20)) initial_world =
        handleCreateOrder sample_platform sample_env NotOk
          (create_request (JStr ''9876543210'') (JNum 20)) initial_world"
    by (rule fetch_returns_handler_promise(2)) (simp_all add: create_request_def)
  then show ?thesis
    by (simp add: sample_create_order_passes_validation createRazorpayOrder_def initial_world_def)
qed

text \<open>
  Claim C9. When the counter table has no row with \<^verbatim>\<open>id = 1\<close>, \<^verbatim>\<open>getNextOrderInfo\<close>
  does not fail: it takes the total to be 0 and quotes 10.
\<close>

theorem next_amount_without_counter_row:
  assumes "counter (db w) = None"
  shows "getNextOrderInfo None w = (Fulfilled (0, 10), w\<lparr>trace := trace w @ [Db SelectCounter]\<rparr>)"
  using assms by (simp add: getNextOrderInfo_row)

theorem next_amount_without_counter_row_witness:
  "getNextOrderInfo None \<lparr>db = \<lparr>counter = None, payments = [], txn = None\<rparr>, trace = []\<rparr> =
     (Fulfilled (0, 10), \<lparr>db = \<lparr>counter = None, payments = [], txn = None\<rparr>, trace = [Db SelectCounter]\<rparr>)"
  using next_amount_without_counter_row[of "\<lparr>db = \<lparr>counter = None, payments = [], txn = None\<rparr>, trace = []\<rparr>"]
  by simp

text \<open>
  Claim C10. \<^verbatim>\<open>handleVerifyPayment\<close> validates none of name, mobile, address and
  amount: whenever the signature is valid and the storage step succeeds (as in claim
  C2: no statement refused, each value of the type of its column, the counter within
  the range of exact JavaScript numbers), the request commits and the record appended
  carries these values exactly as they were sent. The theorem asks nothing else of
  the mobile number, any string, or of the amount, any such integer; its instance
  below records a five-digit mobile number and the amount 5, which
  \<^verbatim>\<open>handleCreateOrder\<close> rejects.
\<close>

theorem verify_records_unvalidated_fields:
  assumes "json req = Inr b" and "has_properties b"
    and "verifySignature pf (js_get b ''razorpay_order_id'') (js_get b ''razorpay_payment_id'')
           (js_get b ''razorpay_signature'') (RZP_SECRET e) = Inr True"
    and "begin_fault fl = None" and "update_fault fl = None" and "select_fault fl = None"
    and "insert_fault fl = None" and "commit_fault fl = None"
    and "fits TEXT (js_get b ''name'')" and "fits TEXT (js_get b ''mobile'')"
    and "fits TEXT (js_get b ''address'')" and "fits INTEGER (js_get b ''amount'')"
    and "fits TEXT (js_get b ''razorpay_order_id'')" and "fits TEXT (js_get b ''razorpay_payment_id'')"
    and "counter (db w) = Some T" and "0 \<le> T" and "T + 1 \<le> 2 ^ 53" and "txn (db w) = None"
  shows "committed (fst (handleVerifyPayment pf e fl req w))
       \<and> payments (db (snd (handleVerifyPayment pf e fl req w))) =
           payments (db w) @
             [\<lparr>order_number = T + 1,
               name = js_get b ''name'', mobile = js_get b ''mobile'',
               address = js_get b ''address'', amount = js_get b ''amount'',
               razorpay_order_id = js_get b ''razorpay_order_id'',
               razorpay_payment_id = js_get b ''razorpay_payment_id''\<rparr>]"
  using verify_commits[OF assms(1-15,18)] by simp

theorem verify_records_unvalidated_fields_witness:
  "committed (fst (handleVerifyPayment sample_platform sample_env no_faults (verify_request ''060d'')
                     initial_world))
   \<and> payments (db (snd (handleVerifyPayment sample_platform sample_env no_faults (verify_request ''060d'')
                          initial_world))) =
       [\<lparr>order_number = 1, name = JStr ''Asha'', mobile = JStr ''12345'',
         address = JStr ''Pune'', amount = JNum 5,
         razorpay_order_id = JStr ''order_1'', razorpay_payment_id = JStr ''pay_1''\<rparr>]
   \<and> fst (handleCreateOrder sample_platform sample_env NotOk (create_request (JStr ''12345'') (JNum 5))
            initial_world) =
       Fulfilled \<lparr>status = 400, body = Some (JObj [(''error'', JStr ''Invalid mobile number'')])\<rparr>"
proof -
  have c: "fst (handleCreateOrder sample_platform sample_env NotOk (create_request (JStr ''12345'') (JNum 5))
            initial_world) =
       Fulfilled \<lparr>status = 400, body = Some (JObj [(''error'', JStr ''Invalid mobile number'')])\<rparr>"
    by (simp add: handleCreateOrder_def create_request_def has_properties_def test_10_digits_def
        jsonResponse_def error_body_def Let_def)
  from verify_records_unvalidated_fields[of "verify_request ''060d''" "sample_payment ''060d''"
      sample_platform sample_env no_faults initial_world 0] c
  show ?thesis
    by (simp add: sample_request_fits sample_signature_valid safe_integer_5 sample_env_def no_faults_def
      initial_world_def)
qed

end
